theory Spec2Isabelle
  imports Main "HOL-Library.Char_ord" "HOL-Library.List_Lexorder"
begin

section \<open>Python values used by ModSide.py\<close>

text \<open>
  Strings and byte strings are both \<open>string\<close> (a list of 8-bit characters).
  A parsed JSON or TOML document is a \<open>json\<close> value; an object is the association
  list of its members. \<open>JNull\<close> is Python's \<open>None\<close>.
\<close>

datatype json =
    JNull
  | JBool bool
  | JNum int
  | JStr string
  | JArr "json list"
  | JObj "(string \<times> json) list"

datatype error =
    BadZipFile
  | EntryReadError
  | KeyError
  | AttributeError
  | TypeError
  | ValueError
  | IndexError
  | UnicodeDecodeError
  | TomlDecodeError
  | RecursionError
  | OSError

text \<open>Python truthiness, as used by \<open>if x:\<close> and \<open>x or y\<close>.\<close>

fun truthy :: "json \<Rightarrow> bool" where
  "truthy JNull = False"
| "truthy (JBool b) = b"
| "truthy (JNum n) = (n \<noteq> 0)"
| "truthy (JStr s) = (s \<noteq> [])"
| "truthy (JArr xs) = (xs \<noteq> [])"
| "truthy (JObj kvs) = (kvs \<noteq> [])"

definition py_or :: "json \<Rightarrow> json \<Rightarrow> json" where
  "py_or a b = (if truthy a then a else b)"

text \<open>\<open>d.get(k, default)\<close> on a dict.\<close>

definition dict_get :: "(string \<times> json) list \<Rightarrow> string \<Rightarrow> json \<Rightarrow> json" where
  "dict_get d k dflt = (case map_of d k of None \<Rightarrow> dflt | Some v \<Rightarrow> v)"

text \<open>\<open>x.get(k, default)\<close> on any value: everything but a dict raises AttributeError.\<close>

definition py_get :: "json \<Rightarrow> string \<Rightarrow> json \<Rightarrow> error + json" where
  "py_get x k dflt = (case x of JObj d \<Rightarrow> Inr (dict_get d k dflt) | _ \<Rightarrow> Inl AttributeError)"

definition startswith :: "string \<Rightarrow> string \<Rightarrow> bool" where
  "startswith s p = (take (length p) s = p)"

definition endswith :: "string \<Rightarrow> string \<Rightarrow> bool" where
  "endswith s q = (length q \<le> length s \<and> drop (length s - length q) s = q)"

text \<open>\<open>str.lower\<close> on ASCII letters.\<close>

definition lower_char :: "char \<Rightarrow> char" where
  "lower_char c =
     (let n = (of_char c :: nat) in if 65 \<le> n \<and> n \<le> 90 then char_of (n + 32) else c)"

definition lower :: "string \<Rightarrow> string" where
  "lower s = map lower_char s"

text \<open>\<open>isinstance(env, str) and env.lower() == t\<close>.\<close>

definition str_lower_is :: "json \<Rightarrow> string \<Rightarrow> bool" where
  "str_lower_is v t = (case v of JStr s \<Rightarrow> lower s = t | _ \<Rightarrow> False)"

section \<open>The side decision engine\<close>

definition tag_meta :: "string \<Rightarrow> string \<Rightarrow> string" where
  "tag_meta loader r = ''[meta/'' @ loader @ ''] '' @ r"

definition tag_mixin :: "string \<Rightarrow> string" where
  "tag_mixin r = ''[mixin] '' @ r"

definition tag_class :: "string \<Rightarrow> string" where
  "tag_class r = ''[class-scan] '' @ r"

definition mispackaged_warning :: string where
  "mispackaged_warning =
     ''WARNING: metadata says server_only but client markers found (possible mispackaged mod)''"

text \<open>
  \<open>ModInfor._decide_side\<close>. The list \<open>reasons\<close> starts with the tagged meta reasons and is
  extended in the branch that returns.
\<close>

definition decide_side ::
  "string \<Rightarrow> string \<Rightarrow> string list \<Rightarrow> bool \<Rightarrow> string list \<Rightarrow> bool \<Rightarrow> string list
     \<Rightarrow> string \<times> string list" where
  "decide_side loader meta_side meta_reasons mixin_client_hit mixin_reasons
       class_marker_hit class_reasons =
     (let reasons = map (tag_meta loader) meta_reasons in
      if meta_side = ''client_only'' then (''client_only'', reasons)
      else if meta_side = ''server_only'' then
        (if class_marker_hit \<or> mixin_client_hit then
           (''risky'',
            ((reasons @ map tag_mixin mixin_reasons) @ map tag_class class_reasons)
              @ [mispackaged_warning])
         else (''server_only'', reasons))
      else if class_marker_hit then (''risky'', reasons @ map tag_class class_reasons)
      else if mixin_client_hit then (''both'', reasons @ map tag_mixin mixin_reasons)
      else if meta_side = ''both'' then (''both'', reasons)
      else (''unknown'', reasons))"

section \<open>Fabric metadata\<close>

text \<open>
  \<open>ModInfor._extract_fabric_side_from_metadata\<close>, called on a dict. The entry-point keys
  are read (for the debug record) before the environment is looked at, so a truthy
  \<open>entrypoints\<close> value that is not a dict raises AttributeError whatever the environment.
\<close>

definition extract_fabric_side_from_metadata ::
  "(string \<times> json) list \<Rightarrow> error + (string \<times> string list \<times> (string \<times> json) list)" where
  "extract_fabric_side_from_metadata fabric_json =
     (let env = dict_get fabric_json ''environment'' (JStr ''*'');
          entrypoints = py_or (dict_get fabric_json ''entrypoints'' (JObj [])) (JObj [])
      in case entrypoints of
           JObj eps \<Rightarrow>
             (let debug = [(''environment'', env),
                           (''entrypoints_keys'', JArr (map JStr (sort (map fst eps))))];
                  has_main = (''main'' \<in> fst ` set eps);
                  has_server = (''server'' \<in> fst ` set eps);
                  has_client = (''client'' \<in> fst ` set eps)
              in if str_lower_is env ''client'' then
                   Inr (''client_only'', [''fabric.mod.json: environment=client''], debug)
                 else if str_lower_is env ''server'' then
                   Inr (''server_only'', [''fabric.mod.json: environment=server''], debug)
                 else if (has_main \<or> has_server) \<and> \<not> has_client then
                   Inr (''both'',
                        [''fabric.mod.json: has entrypoints main/server (no client-only entrypoint)''],
                        debug)
                 else if has_client \<and> \<not> (has_main \<or> has_server) then
                   Inr (''client_only'', [''fabric.mod.json: only client entrypoint present''], debug)
                 else Inr (''unknown'', [''fabric.mod.json: no decisive env/entrypoints''], debug))
         | _ \<Rightarrow> Inl AttributeError)"

section \<open>Archives and the libraries the scanner calls\<close>

text \<open>
  An opened archive, as the code sees it through \<open>zipfile.ZipFile\<close>: \<open>namelist\<close> is
  \<open>z.namelist()\<close>, and \<open>zopen z p\<close> is the whole content of \<open>z.open(p)\<close>, or \<open>None\<close> when
  opening or reading the entry raises.
\<close>

record zip_archive =
  namelist :: "string list"
  zopen :: "string \<Rightarrow> string option"

text \<open>
  Library functions are parameters of the model: \<open>json.loads\<close>, \<open>toml.loads\<close>,
  \<open>bytes.decode('utf-8')\<close> (\<open>None\<close> is UnicodeDecodeError),
  \<open>bytes.decode('utf-8', errors='ignore')\<close>, and the text an f-string gives for a value
  that is not a string.
\<close>

record libs =
  json_loads :: "string \<Rightarrow> error + json"
  toml_loads :: "string \<Rightarrow> error + json"
  decode_utf8 :: "string \<Rightarrow> string option"
  decode_ignore :: "string \<Rightarrow> string"
  format_value :: "json \<Rightarrow> string"

text \<open>\<open>re.sub(r'[\x00-\x1F\x7F]', '', s)\<close>.\<close>

definition strip_control :: "string \<Rightarrow> string" where
  "strip_control s = filter (\<lambda>c. \<not> ((of_char c :: nat) \<le> 31 \<or> (of_char c :: nat) = 127)) s"

text \<open>
  \<open>ModInfor.JSONClean\<close>: only TypeError and ValueError (JSONDecodeError is a ValueError)
  are caught and turned into \<open>None\<close>.
\<close>

definition JSONClean :: "libs \<Rightarrow> string \<Rightarrow> error + json" where
  "JSONClean L json_string =
     (case json_loads L (strip_control json_string) of
        Inr json_data \<Rightarrow> Inr json_data
      | Inl e \<Rightarrow> if e = TypeError \<or> e = ValueError then Inr JNull else Inl e)"

text \<open>\<open>ModInfor.safeRead_from_zip\<close>: every exception is caught.\<close>

definition safeRead_from_zip :: "libs \<Rightarrow> zip_archive \<Rightarrow> string \<Rightarrow> string option" where
  "safeRead_from_zip L z path =
     (case zopen z path of None \<Rightarrow> None | Some b \<Rightarrow> Some (decode_ignore L b))"

text \<open>
  \<open>ModInfor.safeLoad_from_json\<close>: the first parse catches every exception; the retry goes
  through \<open>JSONClean\<close>, whose uncaught exceptions leave the function.
\<close>

definition is_dict :: "json \<Rightarrow> bool" where
  "is_dict v = (case v of JObj _ \<Rightarrow> True | _ \<Rightarrow> False)"

definition safeLoad_from_json :: "libs \<Rightarrow> string \<Rightarrow> error + json" where
  "safeLoad_from_json L text =
     (case json_loads L text of
        Inr v \<Rightarrow> Inr v
      | Inl _ \<Rightarrow>
          (case JSONClean L text of
             Inl e \<Rightarrow> Inl e
           | Inr cleaned \<Rightarrow> Inr (if is_dict cleaned then cleaned else JNull)))"

section \<open>The heuristic scanners\<close>

text \<open>\<open>os.path.basename\<close> with the separator \<open>/\<close>.\<close>

definition basename :: "string \<Rightarrow> string" where
  "basename p = rev (takeWhile (\<lambda>c. c \<noteq> CHR ''/'') (rev p))"

text \<open>\<open>"client" in j and isinstance(j["client"], list) and len(j["client"]) > 0\<close> on a dict.\<close>

definition has_client_section :: "(string \<times> json) list \<Rightarrow> bool" where
  "has_client_section j =
     (case map_of j ''client'' of Some (JArr xs) \<Rightarrow> xs \<noteq> [] | _ \<Rightarrow> False)"

definition mixin_reason :: "string \<Rightarrow> string" where
  "mixin_reason p = ''mixin config '' @ [CHR 0x27] @ p @ [CHR 0x27]
                      @ '' contains non-empty '' @ [CHR 0x27] @ ''client'' @ [CHR 0x27]
                      @ '' section''"

text \<open>The loop of \<open>ModInfor._scan_mixins_for_client_sections\<close> over \<open>z.namelist()\<close>.\<close>

fun scan_mixins_loop ::
  "libs \<Rightarrow> zip_archive \<Rightarrow> string list \<Rightarrow> bool \<Rightarrow> string list \<Rightarrow> error + (bool \<times> string list)" where
  "scan_mixins_loop L z [] hit reasons = Inr (hit, reasons)"
| "scan_mixins_loop L z (p # ps) hit reasons =
     (if \<not> endswith (lower p) ''.json'' then scan_mixins_loop L z ps hit reasons
      else if \<not> startswith (lower (basename p)) ''mixins'' then scan_mixins_loop L z ps hit reasons
      else (case safeRead_from_zip L z p of
              None \<Rightarrow> scan_mixins_loop L z ps hit reasons
            | Some txt \<Rightarrow>
                if txt = [] then scan_mixins_loop L z ps hit reasons
                else (case safeLoad_from_json L txt of
                        Inl e \<Rightarrow> Inl e
                      | Inr (JObj j) \<Rightarrow>
                          if has_client_section j
                          then scan_mixins_loop L z ps True (reasons @ [mixin_reason p])
                          else scan_mixins_loop L z ps hit reasons
                      | Inr _ \<Rightarrow> scan_mixins_loop L z ps hit reasons)))"

definition scan_mixins_for_client_sections ::
  "libs \<Rightarrow> zip_archive \<Rightarrow> error + (bool \<times> string list)" where
  "scan_mixins_for_client_sections L z = scan_mixins_loop L z (namelist z) False []"

definition markers :: "string list" where
  "markers = [''net/minecraft/client/'',
              ''net/minecraft/client/MinecraftClient'',
              ''com/mojang/blaze3d/'',
              ''org/lwjgl/'',
              ''net/fabricmc/api/ClientModInitializer'']"

text \<open>\<open>m in data\<close> on byte strings: \<open>m\<close> occurs in \<open>data\<close> as a contiguous block.\<close>

fun bytes_contains :: "string \<Rightarrow> string \<Rightarrow> bool" where
  "bytes_contains [] m = (m = [])"
| "bytes_contains (d # ds) m = (startswith (d # ds) m \<or> bytes_contains ds m)"

text \<open>The inner loop over the markers, which stops at the first one found.\<close>

fun first_marker :: "string list \<Rightarrow> string \<Rightarrow> string option" where
  "first_marker [] data = None"
| "first_marker (m # ms) data =
     (if bytes_contains data m then Some m else first_marker ms data)"

definition class_reason :: "string \<Rightarrow> string" where
  "class_reason m = ''class bytes contain marker: '' @ m"

text \<open>
  The loop of \<open>ModInfor._scan_class_bytes_for_client_markers\<close>: \<open>scanned\<close> counts the
  class entries met so far, the loop breaks when it passes \<open>max_classes\<close>, and an entry
  that cannot be read is skipped. The caps are natural numbers (the code only ever uses
  its defaults).
\<close>

fun scan_class_loop ::
  "zip_archive \<Rightarrow> nat \<Rightarrow> nat \<Rightarrow> string list \<Rightarrow> nat \<Rightarrow> string list \<Rightarrow> string list" where
  "scan_class_loop z max_classes max_bytes_per_class [] scanned hits = hits"
| "scan_class_loop z max_classes max_bytes_per_class (p # ps) scanned hits =
     (if \<not> endswith p ''.class''
      then scan_class_loop z max_classes max_bytes_per_class ps scanned hits
      else if scanned + 1 > max_classes then hits
      else (case zopen z p of
              None \<Rightarrow> scan_class_loop z max_classes max_bytes_per_class ps (scanned + 1) hits
            | Some bytes \<Rightarrow>
                (case first_marker markers (take max_bytes_per_class bytes) of
                   None \<Rightarrow>
                     scan_class_loop z max_classes max_bytes_per_class ps (scanned + 1) hits
                 | Some m \<Rightarrow>
                     scan_class_loop z max_classes max_bytes_per_class ps (scanned + 1)
                       (hits @ [class_reason m]))))"

definition scan_class_bytes_for_client_markers ::
  "zip_archive \<Rightarrow> nat \<Rightarrow> nat \<Rightarrow> bool \<times> string list" where
  "scan_class_bytes_for_client_markers z max_classes max_bytes_per_class =
     (let hits = scan_class_loop z max_classes max_bytes_per_class (namelist z) 0 []
      in (length hits > 0, hits))"

text \<open>The call with the default caps, as every handler makes it.\<close>

definition scan_class_default :: "zip_archive \<Rightarrow> bool \<times> string list" where
  "scan_class_default z = scan_class_bytes_for_client_markers z 300 200000"

text \<open>
  What the scanner is allowed to look at, in the words of the specification: the first
  \<open>max_classes\<close> entries whose name ends in \<open>.class\<close>, each with at most the first
  \<open>max_bytes_per_class\<close> bytes of its content (or the fact that it cannot be read).
\<close>

definition class_view :: "zip_archive \<Rightarrow> nat \<Rightarrow> nat \<Rightarrow> (string \<times> string option) list" where
  "class_view z max_classes max_bytes_per_class =
     map (\<lambda>p. (p, map_option (take max_bytes_per_class) (zopen z p)))
         (take max_classes (filter (\<lambda>p. endswith p ''.class'') (namelist z)))"

text \<open>The hits that a view gives rise to, entry by entry.\<close>

fun view_hits :: "(string \<times> string option) list \<Rightarrow> string list" where
  "view_hits [] = []"
| "view_hits ((p, None) # v) = view_hits v"
| "view_hits ((p, Some data) # v) =
     (case first_marker markers data of
        None \<Rightarrow> view_hits v
      | Some m \<Rightarrow> class_reason m # view_hits v)"

text \<open>
  Two archives for the caps. \<open>capped_archive\<close> has 301 class entries: the first 300 are
  \<open>A.class\<close>, whose content has a marker only after its first 200000 bytes, and the last
  is \<open>B.class\<close>, which starts with a marker. \<open>plain_archive\<close> has no marker at all.
\<close>

definition capped_archive :: zip_archive where
  "capped_archive =
     \<lparr>namelist = replicate 300 ''A.class'' @ [''B.class''],
      zopen = (\<lambda>p. if p = ''A.class'' then Some (replicate 200000 (CHR ''a'') @ ''org/lwjgl/'')
                    else if p = ''B.class'' then Some ''org/lwjgl/'' else None)\<rparr>"

definition plain_archive :: zip_archive where
  "plain_archive =
     \<lparr>namelist = replicate 300 ''A.class'',
      zopen = (\<lambda>p. if p = ''A.class'' then Some (replicate 200000 (CHR ''a'')) else None)\<rparr>"

section \<open>The registry\<close>

text \<open>
  \<open>ModInfo\<close>. The dataclass does not check its fields, so each holds whatever value the
  metadata gave; an absent optional field is \<open>JNull\<close>.
\<close>

record ModInfo =
  modid :: json
  name :: json
  version :: json
  side :: json
  loader :: json
  reasons :: json
  debug :: json
  source_files :: json

type_synonym registry = "string \<Rightarrow> ModInfo option"

text \<open>The text an f-string puts for a value: a string stands for itself.\<close>

definition py_format :: "libs \<Rightarrow> json \<Rightarrow> string" where
  "py_format L v = (case v of JStr s \<Rightarrow> s | _ \<Rightarrow> format_value L v)"

text \<open>\<open>ModInfor._make_mod_key\<close>.\<close>

definition make_mod_key :: "libs \<Rightarrow> json \<Rightarrow> json \<Rightarrow> json \<Rightarrow> string" where
  "make_mod_key L mid ldr ver0 =
     (let lid = py_or ldr (JStr ''unknown'');
          ver = py_or ver0 (JStr ''unknown'')
      in py_format L mid @ ''_'' @ py_format L lid @ ''_'' @ py_format L ver)"

section \<open>The metadata extractors\<close>

text \<open>
  Every handler opens the archive at \<open>folder_path\<close> itself; \<open>fs\<close> is the file system,
  giving the archive at a path, or \<open>None\<close> when \<open>zipfile.ZipFile\<close> raises there. A handler
  returns \<open>Inl e\<close> when exception \<open>e\<close> leaves it, and the registry otherwise. The only
  assignment to the registry is the last statement of each handler, so an exception
  leaves the registry as it was on entry.
\<close>

definition FabricModHandler ::
  "libs \<Rightarrow> (string \<Rightarrow> zip_archive option) \<Rightarrow> string \<Rightarrow> registry \<Rightarrow> error + registry" where
  "FabricModHandler L fs folder_path mods =
     (case fs folder_path of
        None \<Rightarrow> Inl BadZipFile
      | Some z \<Rightarrow>
          if ''fabric.mod.json'' \<notin> set (namelist z) then Inr mods
          else (case safeRead_from_zip L z ''fabric.mod.json'' of
              None \<Rightarrow> Inr mods
            | Some txt \<Rightarrow>
                if txt = [] then Inr mods
                else (case JSONClean L txt of
                    Inl e \<Rightarrow> Inl e
                  | Inr (JObj data) \<Rightarrow>
                      (case extract_fabric_side_from_metadata data of
                         Inl e \<Rightarrow> Inl e
                       | Inr (meta_side, meta_reasons, dbg) \<Rightarrow>
                           (case scan_mixins_for_client_sections L z of
                              Inl e \<Rightarrow> Inl e
                            | Inr (mixin_hit, mixin_reasons) \<Rightarrow>
                                (let (class_hit, class_reasons) = scan_class_default z;
                                     (sd, rs) = decide_side ''fabric'' meta_side meta_reasons
                                                  mixin_hit mixin_reasons class_hit class_reasons;
                                     mid = dict_get data ''id'' (JStr [])
                                 in if truthy mid then
                                      (let ver = py_or (dict_get data ''version'' (JStr []))
                                                   (JStr ''unknown'');
                                           key = make_mod_key L mid (JStr ''fabric'') ver
                                       in if mods key = None then
                                            Inr (mods(key \<mapsto>
                                              \<lparr>modid = mid,
                                               name = dict_get data ''name'' (JStr []),
                                               version = ver,
                                               side = JStr sd,
                                               loader = JStr ''fabric'',
                                               reasons = JArr (map JStr rs),
                                               debug = JObj dbg,
                                               source_files = JArr [JStr folder_path]\<rparr>))
                                          else Inr mods)
                                    else Inr mods)))
                  | Inr _ \<Rightarrow> Inr mods)))"

definition RiftModHandler ::
  "libs \<Rightarrow> (string \<Rightarrow> zip_archive option) \<Rightarrow> string \<Rightarrow> registry \<Rightarrow> error + registry" where
  "RiftModHandler L fs folder_path mods =
     (case fs folder_path of
        None \<Rightarrow> Inl BadZipFile
      | Some z \<Rightarrow>
          if ''riftmod.json'' \<notin> set (namelist z) then Inr mods
          else (case safeRead_from_zip L z ''riftmod.json'' of
              None \<Rightarrow> Inr mods
            | Some txt \<Rightarrow>
                if txt = [] then Inr mods
                else (case JSONClean L txt of
                    Inl e \<Rightarrow> Inl e
                  | Inr (JObj data) \<Rightarrow>
                      (case scan_mixins_for_client_sections L z of
                         Inl e \<Rightarrow> Inl e
                       | Inr (mixin_hit, mixin_reasons) \<Rightarrow>
                           (let (class_hit, class_reasons) = scan_class_default z;
                                (sd, rs) = decide_side ''rift'' ''unknown''
                                             [''riftmod.json: no standard sided metadata'']
                                             mixin_hit mixin_reasons class_hit class_reasons;
                                mid = dict_get data ''id'' (JStr [])
                            in if truthy mid then
                                 (let ver = py_or (dict_get data ''version'' (JStr []))
                                              (JStr ''unknown'');
                                      key = make_mod_key L mid (JStr ''rift'') ver
                                  in if mods key = None then
                                       Inr (mods(key \<mapsto>
                                         \<lparr>modid = mid,
                                          name = dict_get data ''name'' (JStr []),
                                          version = ver,
                                          side = JStr sd,
                                          loader = JStr ''rift'',
                                          reasons = JArr (map JStr rs),
                                          debug = JNull,
                                          source_files = JArr [JStr folder_path]\<rparr>))
                                     else Inr mods)
                               else Inr mods))
                  | Inr _ \<Rightarrow> Inr mods)))"

text \<open>
  \<open>QuiltModHandler\<close>. \<open>loader_data.get\<close> and \<open>meta.get\<close> raise AttributeError when
  \<open>quilt_loader\<close> or \<open>metadata\<close> is a truthy value that is not a dict.
\<close>

definition QuiltModHandler ::
  "libs \<Rightarrow> (string \<Rightarrow> zip_archive option) \<Rightarrow> string \<Rightarrow> registry \<Rightarrow> error + registry" where
  "QuiltModHandler L fs folder_path mods =
     (case fs folder_path of
        None \<Rightarrow> Inl BadZipFile
      | Some z \<Rightarrow>
          if ''quilt.mod.json'' \<notin> set (namelist z) then Inr mods
          else (case safeRead_from_zip L z ''quilt.mod.json'' of
              None \<Rightarrow> Inr mods
            | Some txt \<Rightarrow>
                if txt = [] then Inr mods
                else (case JSONClean L txt of
                    Inl e \<Rightarrow> Inl e
                  | Inr (JObj data) \<Rightarrow>
                      (case py_or (dict_get data ''quilt_loader'' (JObj [])) (JObj []) of
                         JObj loader_data \<Rightarrow>
                           (case py_or (dict_get loader_data ''metadata'' (JObj [])) (JObj []) of
                              JObj meta \<Rightarrow>
                                (let env = dict_get loader_data ''environment''
                                             (dict_get meta ''environment'' (JStr ''*''));
                                     dbg = [(''environment'', env)];
                                     (meta_side, meta_reasons) =
                                       (if str_lower_is env ''client'' then
                                          (''client_only'', [''quilt.mod.json: environment=client''])
                                        else if str_lower_is env ''server'' then
                                          (''server_only'', [''quilt.mod.json: environment=server''])
                                        else (''unknown'',
                                              [''quilt.mod.json: no decisive environment field'']))
                                 in case scan_mixins_for_client_sections L z of
                                      Inl e \<Rightarrow> Inl e
                                    | Inr (mixin_hit, mixin_reasons) \<Rightarrow>
                                        (let (class_hit, class_reasons) = scan_class_default z;
                                             (sd, rs) = decide_side ''quilt'' meta_side meta_reasons
                                                          mixin_hit mixin_reasons
                                                          class_hit class_reasons;
                                             mid = dict_get loader_data ''id'' (JStr [])
                                         in if truthy mid then
                                              (let ver = py_or (dict_get loader_data ''version''
                                                                  (JStr []))
                                                           (JStr ''unknown'');
                                                   key = make_mod_key L mid (JStr ''quilt'') ver
                                               in if mods key = None then
                                                    Inr (mods(key \<mapsto>
                                                      \<lparr>modid = mid,
                                                       name = dict_get meta ''name'' (JStr []),
                                                       version = ver,
                                                       side = JStr sd,
                                                       loader = JStr ''quilt'',
                                                       reasons = JArr (map JStr rs),
                                                       debug = JObj dbg,
                                                       source_files = JArr [JStr folder_path]\<rparr>))
                                                  else Inr mods)
                                            else Inr mods))
                            | _ \<Rightarrow> Inl AttributeError)
                       | _ \<Rightarrow> Inl AttributeError)
                  | Inr _ \<Rightarrow> Inr mods)))"

text \<open>\<open>x[0]\<close> on any value.\<close>

definition py_index0 :: "json \<Rightarrow> error + json" where
  "py_index0 x =
     (case x of
        JArr xs \<Rightarrow> (case xs of [] \<Rightarrow> Inl IndexError | y # _ \<Rightarrow> Inr y)
      | JStr s \<Rightarrow> (case s of [] \<Rightarrow> Inl IndexError | c # _ \<Rightarrow> Inr (JStr [c]))
      | JObj _ \<Rightarrow> Inl KeyError
      | _ \<Rightarrow> Inl TypeError)"

text \<open>\<open>len(x)\<close> on any value.\<close>

definition py_len :: "json \<Rightarrow> error + nat" where
  "py_len x =
     (case x of
        JArr xs \<Rightarrow> Inr (length xs)
      | JStr s \<Rightarrow> Inr (length s)
      | JObj d \<Rightarrow> Inr (length d)
      | _ \<Rightarrow> Inl TypeError)"

text \<open>
  \<open>LForgeModHandler\<close>. \<open>mod_info\<close> is element 0 of a non-empty list or the dict itself;
  \<open>mod_info.get\<close> comes after the scans and raises AttributeError on an element that is
  not a dict.
\<close>

definition LForgeModHandler ::
  "libs \<Rightarrow> (string \<Rightarrow> zip_archive option) \<Rightarrow> string \<Rightarrow> registry \<Rightarrow> error + registry" where
  "LForgeModHandler L fs folder_path mods =
     (case fs folder_path of
        None \<Rightarrow> Inl BadZipFile
      | Some z \<Rightarrow>
          if ''mcmod.info'' \<notin> set (namelist z) then Inr mods
          else (case safeRead_from_zip L z ''mcmod.info'' of
              None \<Rightarrow> Inr mods
            | Some raw_data \<Rightarrow>
                if raw_data = [] then Inr mods
                else (case JSONClean L raw_data of
                    Inl e \<Rightarrow> Inl e
                  | Inr cleaned_data \<Rightarrow>
                      (case (case cleaned_data of
                               JArr xs \<Rightarrow> (case xs of [] \<Rightarrow> None | x # _ \<Rightarrow> Some x)
                             | JObj d \<Rightarrow> Some (JObj d)
                             | _ \<Rightarrow> None) of
                         None \<Rightarrow> Inr mods
                       | Some mod_info \<Rightarrow>
                           (case scan_mixins_for_client_sections L z of
                              Inl e \<Rightarrow> Inl e
                            | Inr (mixin_hit, mixin_reasons) \<Rightarrow>
                                (let (class_hit, class_reasons) = scan_class_default z;
                                     (sd, rs) = decide_side ''forge_legacy'' ''unknown''
                                       [''forge legacy: mcmod.info has no reliable sided metadata'']
                                       mixin_hit mixin_reasons class_hit class_reasons
                                 in case mod_info of
                                      JObj mi \<Rightarrow>
                                        (let mid = dict_get mi ''modid'' (JStr [])
                                         in if truthy mid then
                                              (let ver = py_or (dict_get mi ''version'' (JStr []))
                                                           (JStr ''unknown'');
                                                   key = make_mod_key L mid (JStr ''forge_legacy'') ver
                                               in if mods key = None then
                                                    Inr (mods(key \<mapsto>
                                                      \<lparr>modid = mid,
                                                       name = dict_get mi ''name'' (JStr []),
                                                       version = ver,
                                                       side = JStr sd,
                                                       loader = JStr ''forge_legacy'',
                                                       reasons = JArr (map JStr rs),
                                                       debug = JNull,
                                                       source_files = JArr [JStr folder_path]\<rparr>))
                                                  else Inr mods)
                                            else Inr mods)
                                    | _ \<Rightarrow> Inl AttributeError))))))"

text \<open>
  The manifest is read line by line (\<open>for line in manifest\<close>); each line keeps its
  line feed, which \<open>strip\<close> removes.
\<close>

fun lines_keepends :: "string \<Rightarrow> string list" where
  "lines_keepends [] = []"
| "lines_keepends (c # cs) =
     (if c = CHR 0x0A then [c] # lines_keepends cs
      else (case lines_keepends cs of [] \<Rightarrow> [[c]] | l # ls \<Rightarrow> (c # l) # ls))"

definition is_space :: "char \<Rightarrow> bool" where
  "is_space c = (let n = (of_char c :: nat) in (9 \<le> n \<and> n \<le> 13) \<or> (28 \<le> n \<and> n \<le> 32))"

definition strip :: "string \<Rightarrow> string" where
  "strip s = rev (dropWhile is_space (rev (dropWhile is_space s)))"

text \<open>
  The loop over the manifest lines: the first line that starts with
  \<open>Implementation-Version:\<close> gives \<open>line.split(':', 1)[1].strip()\<close>.
\<close>

fun manifest_version :: "libs \<Rightarrow> string list \<Rightarrow> string option" where
  "manifest_version L [] = None"
| "manifest_version L (l # ls) =
     (let line = strip (decode_ignore L l)
      in if startswith line ''Implementation-Version:''
         then Some (strip (drop 1 (dropWhile (\<lambda>c. c \<noteq> CHR '':'') line)))
         else manifest_version L ls)"

text \<open>
  \<open>MForgeModHandler\<close>. Nothing is caught here: an unreadable \<open>mods.toml\<close> or manifest,
  a TOML syntax error, \<open>mods[0]\<close> and \<open>mod_info.get\<close> on the wrong kind of value all
  leave the handler as exceptions. The version is stored as found (no \<open>or 'unknown'\<close>).
\<close>

definition MForgeModHandler ::
  "libs \<Rightarrow> (string \<Rightarrow> zip_archive option) \<Rightarrow> string \<Rightarrow> registry \<Rightarrow> error + registry" where
  "MForgeModHandler L fs folder_path mods =
     (case fs folder_path of
        None \<Rightarrow> Inl BadZipFile
      | Some z \<Rightarrow>
          if ''META-INF/mods.toml'' \<notin> set (namelist z) then Inr mods
          else (case zopen z ''META-INF/mods.toml'' of
              None \<Rightarrow> Inl EntryReadError
            | Some b \<Rightarrow>
                (case toml_loads L (decode_ignore L b) of
                   Inl e \<Rightarrow> Inl e
                 | Inr data \<Rightarrow>
                     (case py_get data ''mods'' (JArr []) of
                        Inl e \<Rightarrow> Inl e
                      | Inr ms \<Rightarrow>
                          if \<not> truthy ms then Inr mods
                          else (case py_index0 ms of
                              Inl e \<Rightarrow> Inl e
                            | Inr mod_info \<Rightarrow>
                                (case mod_info of
                                   JObj mi \<Rightarrow>
                                     (case (let v0 = dict_get mi ''version'' (JStr [])
                                            in if v0 = JStr ''${file.jarVersion}''
                                                  \<and> ''META-INF/MANIFEST.MF'' \<in> set (namelist z)
                                               then (case zopen z ''META-INF/MANIFEST.MF'' of
                                                       None \<Rightarrow> Inl EntryReadError
                                                     | Some mf \<Rightarrow>
                                                         (case manifest_version L (lines_keepends mf) of
                                                            None \<Rightarrow> Inr v0
                                                          | Some v \<Rightarrow> Inr (JStr v)))
                                               else Inr v0) of
                                        Inl e \<Rightarrow> Inl e
                                      | Inr ver \<Rightarrow>
                                          (case scan_mixins_for_client_sections L z of
                                             Inl e \<Rightarrow> Inl e
                                           | Inr (mixin_hit, mixin_reasons) \<Rightarrow>
                                               (let (class_hit, class_reasons) = scan_class_default z;
                                                    (sd, rs) = decide_side ''forge'' ''unknown''
                                                      [''forge mods.toml: no reliable sided metadata; using class scan'']
                                                      mixin_hit mixin_reasons class_hit class_reasons;
                                                    mid = dict_get mi ''modId'' (JStr [])
                                                in if truthy mid then
                                                     (let key = make_mod_key L mid (JStr ''forge'') ver
                                                      in if mods key = None then
                                                           Inr (mods(key \<mapsto>
                                                             \<lparr>modid = mid,
                                                              name = dict_get mi ''displayName'' (JStr []),
                                                              version = ver,
                                                              side = JStr sd,
                                                              loader = JStr ''forge'',
                                                              reasons = JArr (map JStr rs),
                                                              debug = JNull,
                                                              source_files = JArr [JStr folder_path]\<rparr>))
                                                         else Inr mods)
                                                   else Inr mods)))
                                 | _ \<Rightarrow> Inl AttributeError))))))"

definition NeoForgeModHandler ::
  "libs \<Rightarrow> (string \<Rightarrow> zip_archive option) \<Rightarrow> string \<Rightarrow> registry \<Rightarrow> error + registry" where
  "NeoForgeModHandler L fs folder_path mods =
     (case fs folder_path of
        None \<Rightarrow> Inl BadZipFile
      | Some z \<Rightarrow>
          if ''META-INF/neoforge.mods.toml'' \<notin> set (namelist z) then Inr mods
          else (case zopen z ''META-INF/neoforge.mods.toml'' of
              None \<Rightarrow> Inl EntryReadError
            | Some b \<Rightarrow>
                (case toml_loads L (decode_ignore L b) of
                   Inl e \<Rightarrow> Inl e
                 | Inr data \<Rightarrow>
                     (case py_get data ''mods'' (JArr []) of
                        Inl e \<Rightarrow> Inl e
                      | Inr ms \<Rightarrow>
                          if \<not> truthy ms then Inr mods
                          else (case py_index0 ms of
                              Inl e \<Rightarrow> Inl e
                            | Inr mod_info \<Rightarrow>
                                (case scan_mixins_for_client_sections L z of
                                   Inl e \<Rightarrow> Inl e
                                 | Inr (mixin_hit, mixin_reasons) \<Rightarrow>
                                     (let (class_hit, class_reasons) = scan_class_default z;
                                          (sd, rs) = decide_side ''neoforge'' ''unknown''
                                            [''neoforge mods.toml: no reliable sided metadata; using class scan'']
                                            mixin_hit mixin_reasons class_hit class_reasons
                                      in case mod_info of
                                           JObj mi \<Rightarrow>
                                             (let mid = dict_get mi ''modId'' (JStr [])
                                              in if truthy mid then
                                                   (let ver = py_or (dict_get mi ''version'' (JStr []))
                                                                (JStr ''unknown'');
                                                        key = make_mod_key L mid (JStr ''neoforge'') ver
                                                    in if mods key = None then
                                                         Inr (mods(key \<mapsto>
                                                           \<lparr>modid = mid,
                                                            name = dict_get mi ''displayName'' (JStr []),
                                                            version = ver,
                                                            side = JStr sd,
                                                            loader = JStr ''neoforge'',
                                                            reasons = JArr (map JStr rs),
                                                            debug = JNull,
                                                            source_files = JArr [JStr folder_path]\<rparr>))
                                                       else Inr mods)
                                                 else Inr mods)
                                         | _ \<Rightarrow> Inl AttributeError)))))))"

text \<open>
  \<open>UniversalHandler\<close>, for \<open>.zip\<close> and \<open>.litemod\<close> files. It reads \<open>mcmod.info\<close> with a
  strict decode and without any \<open>try\<close>, calls no scanner and no \<open>_decide_side\<close>, and
  stores the fixed side \<open>unknown\<close> with one fixed reason.
\<close>

definition UniversalHandler ::
  "libs \<Rightarrow> (string \<Rightarrow> zip_archive option) \<Rightarrow> string \<Rightarrow> registry \<Rightarrow> error + registry" where
  "UniversalHandler L fs folder_path mods =
     (case fs folder_path of
        None \<Rightarrow> Inl BadZipFile
      | Some z \<Rightarrow>
          if ''mcmod.info'' \<notin> set (namelist z) then Inr mods
          else (case zopen z ''mcmod.info'' of
              None \<Rightarrow> Inl EntryReadError
            | Some b \<Rightarrow>
                (case decode_utf8 L b of
                   None \<Rightarrow> Inl UnicodeDecodeError
                 | Some raw_data \<Rightarrow>
                     (case JSONClean L raw_data of
                        Inl e \<Rightarrow> Inl e
                      | Inr data \<Rightarrow>
                          (case (case data of
                                   JArr xs \<Rightarrow> (case xs of [] \<Rightarrow> Inr None | x # _ \<Rightarrow> Inr (Some x))
                                 | JObj d \<Rightarrow>
                                     (case map_of d ''modlist'' of
                                        None \<Rightarrow> Inr None
                                      | Some ml \<Rightarrow>
                                          (case py_len ml of
                                             Inl e \<Rightarrow> Inl e
                                           | Inr n \<Rightarrow>
                                               if n > 0 then
                                                 (case py_index0 ml of
                                                    Inl e \<Rightarrow> Inl e
                                                  | Inr x \<Rightarrow> Inr (Some x))
                                               else Inr None))
                                 | _ \<Rightarrow> Inr None) of
                             Inl e \<Rightarrow> Inl e
                           | Inr None \<Rightarrow> Inr mods
                           | Inr (Some mod_info) \<Rightarrow>
                               (case mod_info of
                                  JObj mi \<Rightarrow>
                                    (let mid = dict_get mi ''modid'' (JStr [])
                                     in if truthy mid then
                                          (let ver = py_or (dict_get mi ''version'' (JStr []))
                                                       (JStr ''unknown'');
                                               key = make_mod_key L mid (JStr ''universal'') ver
                                           in if mods key \<noteq> None then Inr mods
                                              else Inr (mods(key \<mapsto>
                                                \<lparr>modid = mid,
                                                 name = dict_get mi ''name'' (JStr []),
                                                 version = ver,
                                                 side = JStr ''unknown'',
                                                 loader = JStr ''universal'',
                                                 reasons = JArr [JStr
                                                   ''legacy/zip: mcmod.info has no reliable sided metadata''],
                                                 debug = JNull,
                                                 source_files = JArr [JStr folder_path]\<rparr>)))
                                        else Inr mods)
                                | _ \<Rightarrow> Inl AttributeError))))))"

text \<open>
  \<open>SpecialHandler\<close>: the whole body is inside \<open>try ... except Exception\<close>, the verdict is
  computed and dropped, and nothing is stored.
\<close>

definition SpecialHandler ::
  "libs \<Rightarrow> (string \<Rightarrow> zip_archive option) \<Rightarrow> string \<Rightarrow> registry \<Rightarrow> error + registry" where
  "SpecialHandler L fs folder_path mods =
     (case fs folder_path of
        None \<Rightarrow> Inr mods
      | Some z \<Rightarrow>
          (case scan_mixins_for_client_sections L z of
             Inl e \<Rightarrow> Inr mods
           | Inr (mixin_hit, mixin_reasons) \<Rightarrow>
               (let (class_hit, class_reasons) = scan_class_default z;
                    (sd, rs) = decide_side ''special'' ''unknown''
                                 [''special/unknown mod type: no known metadata'']
                                 mixin_hit mixin_reasons class_hit class_reasons
                in Inr mods)))"

text \<open>\<open>JarFileHandler\<close>: the dispatcher. It opens the archive outside any \<open>try\<close>.\<close>

definition JarFileHandler ::
  "libs \<Rightarrow> (string \<Rightarrow> zip_archive option) \<Rightarrow> string \<Rightarrow> registry \<Rightarrow> error + registry" where
  "JarFileHandler L fs folder_path mods =
     (case fs folder_path of
        None \<Rightarrow> Inl BadZipFile
      | Some z \<Rightarrow>
          if ''fabric.mod.json'' \<in> set (namelist z) then FabricModHandler L fs folder_path mods
          else if ''riftmod.json'' \<in> set (namelist z) then RiftModHandler L fs folder_path mods
          else if ''quilt.mod.json'' \<in> set (namelist z) then QuiltModHandler L fs folder_path mods
          else if ''mcmod.info'' \<in> set (namelist z) then LForgeModHandler L fs folder_path mods
          else if list_ex (\<lambda>n. n = ''META-INF/mods.toml'') (namelist z)
            then MForgeModHandler L fs folder_path mods
          else if list_ex (\<lambda>n. n = ''META-INF/neoforge.mods.toml'') (namelist z)
            then NeoForgeModHandler L fs folder_path mods
          else SpecialHandler L fs folder_path mods)"

section \<open>The directory walk\<close>

text \<open>
  A directory tree: what \<open>os.listdir\<close> and \<open>os.path.isdir\<close> report. The content of a
  file is found through \<open>fs\<close> at its full path.
\<close>

datatype dirtree = File | Dir "(string \<times> dirtree) list"

text \<open>\<open>os.path.join\<close> with the separator \<open>/\<close>.\<close>

definition path_join :: "string \<Rightarrow> string \<Rightarrow> string" where
  "path_join a b =
     (if startswith b ''/'' then b
      else if a = [] \<or> endswith a ''/'' then a @ b
      else a @ ''/'' @ b)"

text \<open>
  \<open>PathHandler\<close> on the entries of a directory, in the order \<open>os.listdir\<close> gives them.
  Nothing is caught: the first exception that leaves a handler ends the walk. The result
  is the exception, if any, and the registry as the walk left it.
\<close>

fun PathHandler ::
  "libs \<Rightarrow> (string \<Rightarrow> zip_archive option) \<Rightarrow> string \<Rightarrow> (string \<times> dirtree) list \<Rightarrow> registry
     \<Rightarrow> error option \<times> registry"
and path_item ::
  "libs \<Rightarrow> (string \<Rightarrow> zip_archive option) \<Rightarrow> string \<Rightarrow> dirtree \<Rightarrow> registry
     \<Rightarrow> error option \<times> registry" where
  "PathHandler L fs folder_path [] mods = (None, mods)"
| "PathHandler L fs folder_path ((item, node) # rest) mods =
     (case path_item L fs (path_join folder_path item) node mods of
        (Some e, mods') \<Rightarrow> (Some e, mods')
      | (None, mods') \<Rightarrow> PathHandler L fs folder_path rest mods')"
| "path_item L fs full_path (Dir children) mods = PathHandler L fs full_path children mods"
| "path_item L fs full_path File mods =
     (if endswith full_path ''.litemod'' then
        (case UniversalHandler L fs full_path mods of
           Inl e \<Rightarrow> (Some e, mods) | Inr mods' \<Rightarrow> (None, mods'))
      else if endswith full_path ''.zip'' then
        (case UniversalHandler L fs full_path mods of
           Inl e \<Rightarrow> (Some e, mods) | Inr mods' \<Rightarrow> (None, mods'))
      else if endswith full_path ''.jar'' then
        (case JarFileHandler L fs full_path mods of
           Inl e \<Rightarrow> (Some e, mods) | Inr mods' \<Rightarrow> (None, mods'))
      else (None, mods))"

section \<open>Loading a snapshot\<close>

text \<open>
  The record directory as \<open>LoadFromJson\<close> sees it: whether it exists, what \<open>os.listdir\<close>
  gives (\<open>None\<close> when it raises), and the text of a file in it (\<open>None\<close> when opening or
  reading raises).
\<close>

record snapshot_store =
  dir_exists :: bool
  listing :: "string list option"
  read_text :: "string \<Rightarrow> string option"

text \<open>\<open>xs[i]\<close> on a list: a negative index counts from the end, \<open>None\<close> is IndexError.\<close>

definition py_list_index :: "'a list \<Rightarrow> int \<Rightarrow> 'a option" where
  "py_list_index xs i =
     (if 0 \<le> i \<and> i < int (length xs) then Some (xs ! nat i)
      else if i < 0 \<and> - int (length xs) \<le> i then Some (xs ! nat (int (length xs) + i))
      else None)"

text \<open>\<open>for x in v\<close> on any value.\<close>

definition py_iter :: "json \<Rightarrow> error + json list" where
  "py_iter v =
     (case v of
        JArr xs \<Rightarrow> Inr xs
      | JObj d \<Rightarrow> Inr (map (\<lambda>kv. JStr (fst kv)) d)
      | JStr s \<Rightarrow> Inr (map (\<lambda>c. JStr [c]) s)
      | _ \<Rightarrow> Inl TypeError)"

text \<open>
  The loop that turns the stored dicts back into \<open>ModInfo\<close> objects. An element that is
  not a dict raises AttributeError at \<open>mod_dict.get\<close>; the records stored before it stay.
\<close>

fun load_loop :: "libs \<Rightarrow> json list \<Rightarrow> registry \<Rightarrow> error option \<times> registry" where
  "load_loop L [] mods = (None, mods)"
| "load_loop L (mod_dict # rest) mods =
     (case mod_dict of
        JObj d \<Rightarrow>
          (let mod_info =
                 \<lparr>modid = dict_get d ''modid'' (JStr []),
                  name = dict_get d ''name'' (JStr []),
                  version = dict_get d ''version'' (JStr []),
                  side = dict_get d ''side'' JNull,
                  loader = dict_get d ''loader'' JNull,
                  reasons = dict_get d ''reasons'' JNull,
                  debug = dict_get d ''debug'' JNull,
                  source_files = dict_get d ''source_files'' JNull\<rparr>;
               key = make_mod_key L (modid mod_info)
                       (py_or (loader mod_info) (JStr ''unknown''))
                       (py_or (version mod_info) (JStr ''unknown''))
           in load_loop L rest (if mods key = None then mods(key \<mapsto> mod_info) else mods))
      | _ \<Rightarrow> (Some AttributeError, mods))"

text \<open>
  \<open>ModInfor.LoadFromJson\<close>. The result is the returned value (\<open>JNull\<close> for \<open>None\<close>) and
  the registry afterwards. The registry is cleared once the file is chosen and before it
  is read; every exception is caught and gives \<open>None\<close>.
\<close>

definition LoadFromJson :: "libs \<Rightarrow> snapshot_store \<Rightarrow> int \<Rightarrow> registry \<Rightarrow> json \<times> registry" where
  "LoadFromJson L store index mods =
     (if \<not> dir_exists store then (JNull, mods)
      else (case listing store of
          None \<Rightarrow> (JNull, mods)
        | Some names \<Rightarrow>
            (let files = rev (sort (filter (\<lambda>f. startswith f ''ModelInfo_'' \<and> endswith f ''.json'')
                                      names))
             in if files = [] then (JNull, mods)
                else if index \<ge> int (length files) then (JNull, mods)
                else (case py_list_index files index of
                    None \<Rightarrow> (JNull, mods)
                  | Some selected_file \<Rightarrow>
                      (let cleared = (Map.empty :: registry)
                       in case read_text store selected_file of
                            None \<Rightarrow> (JNull, cleared)
                          | Some txt \<Rightarrow>
                              (case json_loads L txt of
                                 Inl e \<Rightarrow> (JNull, cleared)
                               | Inr data \<Rightarrow>
                                   (case (case data of
                                            JObj d \<Rightarrow>
                                              if map_of d ''metadata'' \<noteq> None \<and> map_of d ''mods'' \<noteq> None
                                              then Some (dict_get d ''metadata'' (JObj []),
                                                         dict_get d ''mods'' (JArr []))
                                              else None
                                          | JArr xs \<Rightarrow>
                                              Some (JObj [(''current_path'', JStr [])], JArr xs)
                                          | _ \<Rightarrow> None) of
                                      None \<Rightarrow> (JNull, cleared)
                                    | Some (metadata, mods_data) \<Rightarrow>
                                        (case py_iter mods_data of
                                           Inl e \<Rightarrow> (JNull, cleared)
                                         | Inr items \<Rightarrow>
                                             (case load_loop L items cleared of
                                                (Some e, m) \<Rightarrow> (JNull, m)
                                              | (None, m) \<Rightarrow> (metadata, m))))))))))"

section \<open>Auxiliary notions for the statements\<close>

text \<open>
  The registry after a handler was called on \<open>mods\<close>: the returned registry, or \<open>mods\<close>
  itself when an exception left the handler (no handler assigns before it raises).
\<close>

definition registry_after :: "error + registry \<Rightarrow> registry \<Rightarrow> registry" where
  "registry_after res mods = (case res of Inl e \<Rightarrow> mods | Inr mods' \<Rightarrow> mods')"

text \<open>
  The decision engine's merge of a meta-side guess with the results of both scanners on
  an archive (\<open>None\<close> when the mixin scanner raises).
\<close>

definition merged_verdict ::
  "libs \<Rightarrow> zip_archive \<Rightarrow> string \<Rightarrow> string \<Rightarrow> string list \<Rightarrow> (string \<times> string list) option" where
  "merged_verdict L z ld meta_side meta_reasons =
     (case scan_mixins_for_client_sections L z of
        Inl e \<Rightarrow> None
      | Inr (mixin_hit, mixin_reasons) \<Rightarrow>
          (let (class_hit, class_reasons) = scan_class_default z
           in Some (decide_side ld meta_side meta_reasons
                      mixin_hit mixin_reasons class_hit class_reasons)))"

text \<open>
  The document shapes \<open>LoadFromJson\<close> goes on with: an object that has both \<open>metadata\<close>
  and \<open>mods\<close>, or a list.
\<close>

definition recognized_shape :: "json \<Rightarrow> bool" where
  "recognized_shape data =
     (case data of
        JObj d \<Rightarrow> map_of d ''metadata'' \<noteq> None \<and> map_of d ''mods'' \<noteq> None
      | JArr xs \<Rightarrow> True
      | _ \<Rightarrow> False)"

text \<open>
  The meta-side guess and the meta reasons that \<open>QuiltModHandler\<close> derives from the
  parsed \<open>quilt.mod.json\<close>, as a function of that dict (\<open>None\<close> where the handler raises
  AttributeError): the environment is looked up in \<open>quilt_loader\<close> first and in its
  \<open>metadata\<close> second.
\<close>

definition quilt_meta_guess :: "(string \<times> json) list \<Rightarrow> (string \<times> string list) option" where
  "quilt_meta_guess data =
     (case py_or (dict_get data ''quilt_loader'' (JObj [])) (JObj []) of
        JObj loader_data \<Rightarrow>
          (case py_or (dict_get loader_data ''metadata'' (JObj [])) (JObj []) of
             JObj meta \<Rightarrow>
               (let env = dict_get loader_data ''environment''
                            (dict_get meta ''environment'' (JStr ''*''))
                in if str_lower_is env ''client'' then
                     Some (''client_only'', [''quilt.mod.json: environment=client''])
                   else if str_lower_is env ''server'' then
                     Some (''server_only'', [''quilt.mod.json: environment=server''])
                   else Some (''unknown'', [''quilt.mod.json: no decisive environment field'']))
           | _ \<Rightarrow> None)
      | _ \<Rightarrow> None)"

section \<open>Concrete archives, directories and stores\<close>

text \<open>
  A small instance of the libraries: the parser knows two metadata texts and rejects
  everything else, decoding is the identity.
\<close>

definition example_libs :: libs where
  "example_libs =
     \<lparr>json_loads =
        (\<lambda>s. if s = ''{\"id\":\"a\"}'' then Inr (JObj [(''id'', JStr ''a'')])
              else if s = ''[{\"modid\":\"old\"}]''
                then Inr (JArr [JObj [(''modid'', JStr ''old'')]])
              else Inl ValueError),
      toml_loads = (\<lambda>s. Inl TomlDecodeError),
      decode_utf8 = (\<lambda>b. Some b),
      decode_ignore = (\<lambda>b. b),
      format_value = (\<lambda>v. ''?'')\<rparr>"

definition fabric_jar :: zip_archive where
  "fabric_jar =
     \<lparr>namelist = [''fabric.mod.json''],
      zopen = (\<lambda>p. if p = ''fabric.mod.json'' then Some ''{\"id\":\"a\"}'' else None)\<rparr>"

definition rift_jar :: zip_archive where
  "rift_jar =
     \<lparr>namelist = [''riftmod.json'', ''X.class''],
      zopen = (\<lambda>p. if p = ''riftmod.json'' then Some ''{\"id\":\"a\"}''
                    else if p = ''X.class'' then Some ''org/lwjgl/'' else None)\<rparr>"

definition old_zip :: zip_archive where
  "old_zip =
     \<lparr>namelist = [''mcmod.info'', ''X.class''],
      zopen = (\<lambda>p. if p = ''mcmod.info'' then Some ''[{\"modid\":\"old\"}]''
                    else if p = ''X.class'' then Some ''org/lwjgl/'' else None)\<rparr>"

definition special_jar :: zip_archive where
  "special_jar =
     \<lparr>namelist = [''X.class''],
      zopen = (\<lambda>p. if p = ''X.class'' then Some ''org/lwjgl/'' else None)\<rparr>"

text \<open>
  A mods directory: \<open>mods/a.jar\<close> is not an archive, the other files are the archives
  above.
\<close>

definition example_fs :: "string \<Rightarrow> zip_archive option" where
  "example_fs =
     (\<lambda>p. if p = ''mods/b.jar'' then Some fabric_jar
           else if p = ''mods/r.jar'' then Some rift_jar
           else if p = ''mods/old.zip'' then Some old_zip
           else if p = ''mods/s.jar'' then Some special_jar
           else None)"

definition first_record :: ModInfo where
  "first_record =
     \<lparr>modid = JStr ''a'', name = JStr ''First'', version = JStr ''unknown'',
      side = JStr ''both'', loader = JStr ''fabric'', reasons = JArr [],
      debug = JNull, source_files = JArr [JStr ''mods/first.jar'']\<rparr>"

definition one_mod_registry :: registry where
  "one_mod_registry = [''a_fabric_unknown'' \<mapsto> first_record]"

text \<open>A record directory whose only snapshot is not JSON.\<close>

definition broken_store :: snapshot_store where
  "broken_store =
     \<lparr>dir_exists = True,
      listing = Some [''ModelInfo_20240101_000000.json'', ''notes.txt''],
      read_text = (\<lambda>f. if f = ''ModelInfo_20240101_000000.json'' then Some ''not json''
                        else None)\<rparr>"

text \<open>The records the handlers store for \<open>mods/b.jar\<close>, \<open>mods/r.jar\<close> and \<open>mods/old.zip\<close>.\<close>

definition fabric_record :: ModInfo where
  "fabric_record =
     \<lparr>modid = JStr ''a'', name = JStr [], version = JStr ''unknown'',
      side = JStr ''unknown'', loader = JStr ''fabric'',
      reasons = JArr [JStr ''[meta/fabric] fabric.mod.json: no decisive env/entrypoints''],
      debug = JObj [(''environment'', JStr ''*''), (''entrypoints_keys'', JArr [])],
      source_files = JArr [JStr ''mods/b.jar'']\<rparr>"

definition rift_record :: ModInfo where
  "rift_record =
     \<lparr>modid = JStr ''a'', name = JStr [], version = JStr ''unknown'',
      side = JStr ''risky'', loader = JStr ''rift'',
      reasons = JArr [JStr ''[meta/rift] riftmod.json: no standard sided metadata'',
                      JStr ''[class-scan] class bytes contain marker: org/lwjgl/''],
      debug = JNull,
      source_files = JArr [JStr ''mods/r.jar'']\<rparr>"

definition old_record :: ModInfo where
  "old_record =
     \<lparr>modid = JStr ''old'', name = JStr [], version = JStr ''unknown'',
      side = JStr ''unknown'', loader = JStr ''universal'',
      reasons = JArr [JStr ''legacy/zip: mcmod.info has no reliable sided metadata''],
      debug = JNull,
      source_files = JArr [JStr ''mods/old.zip'']\<rparr>"

text \<open>
  The loaders whose handlers pass the meta-side guess \<open>unknown\<close> to the decision engine,
  each with the fixed meta reason its handler gives.
\<close>

definition unsided_loaders :: "(string \<times> string list) list" where
  "unsided_loaders =
     [(''rift'', [''riftmod.json: no standard sided metadata'']),
      (''forge_legacy'', [''forge legacy: mcmod.info has no reliable sided metadata'']),
      (''forge'', [''forge mods.toml: no reliable sided metadata; using class scan'']),
      (''neoforge'', [''neoforge mods.toml: no reliable sided metadata; using class scan''])]"

text \<open>Two stored records with the same id, loader and version, and the first as loaded.\<close>

definition snapshot_items :: "json list" where
  "snapshot_items =
     [JObj [(''modid'', JStr ''a''), (''name'', JStr ''First''), (''loader'', JStr ''fabric'')],
      JObj [(''modid'', JStr ''a''), (''name'', JStr ''Second''), (''loader'', JStr ''fabric'')]]"

definition loaded_record :: ModInfo where
  "loaded_record =
     \<lparr>modid = JStr ''a'', name = JStr ''First'', version = JStr [],
      side = JNull, loader = JStr ''fabric'', reasons = JNull,
      debug = JNull, source_files = JNull\<rparr>"

text \<open>No record directory at all.\<close>

definition missing_store :: snapshot_store where
  "missing_store = \<lparr>dir_exists = False, listing = None, read_text = (\<lambda>f. None)\<rparr>"

section \<open>Properties of the decision engine\<close>

lemma lower_client: "lower ''client'' = ''client''"
  by (simp add: lower_def lower_char_def)

text \<open>
  C1. Whenever the meta-side guess is client-only, the final side is client-only, whatever
  the mixin-hit flag and the class-marker-hit flag are. In particular, when fabric.mod.json
  declares the environment exactly \<open>client\<close> and the metadata extractor returns, its guess
  is client-only and so is the final side.
\<close>

theorem C1_client_only_is_final:
  "fst (decide_side ld ''client_only'' mr mh mx ch cx) = ''client_only'' \<and>
   (map_of fj ''environment'' = Some (JStr ''client'') \<longrightarrow>
    extract_fabric_side_from_metadata fj = Inr (ms, mr', dbg) \<longrightarrow>
      ms = ''client_only'' \<and>
      fst (decide_side ''fabric'' ms mr' mh mx ch cx) = ''client_only'')"
proof -
  have a: "fst (decide_side l ''client_only'' r mh mx ch cx) = ''client_only''" for l r
    by (simp add: decide_side_def)
  have b: "ms = ''client_only''"
    if "map_of fj ''environment'' = Some (JStr ''client'')"
      and "extract_fabric_side_from_metadata fj = Inr (ms, mr', dbg)"
    using that
    by (auto simp: extract_fabric_side_from_metadata_def dict_get_def str_lower_is_def
        lower_client Let_def split: json.splits)
  show ?thesis using a b by blast
qed

theorem C1_witness:
  "map_of [(''environment'', JStr ''client''), (''entrypoints'', JObj [(''main'', JArr [])])]
       ''environment'' = Some (JStr ''client'') \<and>
   extract_fabric_side_from_metadata
       [(''environment'', JStr ''client''), (''entrypoints'', JObj [(''main'', JArr [])])]
     = Inr (''client_only'', [''fabric.mod.json: environment=client''],
            [(''environment'', JStr ''client''), (''entrypoints_keys'', JArr [JStr ''main''])]) \<and>
   fst (decide_side ''fabric'' ''client_only'' [''fabric.mod.json: environment=client'']
          True [''m''] True [''c'']) = ''client_only''"
  using C1_client_only_is_final
    [of "''fabric''" "[''fabric.mod.json: environment=client'']" True "[''m'']" True "[''c'']"
        "[(''environment'', JStr ''client''), (''entrypoints'', JObj [(''main'', JArr [])])]"
        "''client_only''" "[''fabric.mod.json: environment=client'']"
        "[(''environment'', JStr ''client''), (''entrypoints_keys'', JArr [JStr ''main''])]"]
  by (simp add: extract_fabric_side_from_metadata_def dict_get_def py_or_def str_lower_is_def
      lower_client)

text \<open>
  C2. When the meta-side guess is server-only: if the mixin scanner or the class-marker
  scanner hit, the final side is risky and the reasons contain the mis-packaging warning;
  if neither hit, the final side is server-only.
\<close>

theorem C2_server_only:
  "(mh \<or> ch \<longrightarrow>
      fst (decide_side ld ''server_only'' mr mh mx ch cx) = ''risky'' \<and>
      ''WARNING: metadata says server_only but client markers found (possible mispackaged mod)''
        \<in> set (snd (decide_side ld ''server_only'' mr mh mx ch cx))) \<and>
   (\<not> mh \<and> \<not> ch \<longrightarrow>
      fst (decide_side ld ''server_only'' mr mh mx ch cx) = ''server_only'')"
  by (simp add: decide_side_def mispackaged_warning_def)

theorem C2_witness:
  "(False \<or> True) \<and>
   fst (decide_side ''fabric'' ''server_only'' [''e''] False [] True [''c'']) = ''risky'' \<and>
   ''WARNING: metadata says server_only but client markers found (possible mispackaged mod)''
     \<in> set (snd (decide_side ''fabric'' ''server_only'' [''e''] False [] True [''c''])) \<and>
   (\<not> False \<and> \<not> False) \<and>
   fst (decide_side ''fabric'' ''server_only'' [''e''] False [] False []) = ''server_only''"
  using C2_server_only [of False True "''fabric''" "[''e'']" "[]" "[''c'']"]
        C2_server_only [of False False "''fabric''" "[''e'']" "[]" "[]"]
  by simp

text \<open>
  C3. When the meta-side guess is both or indeterminate (\<open>unknown\<close>): a class-marker hit
  gives risky; otherwise a mixin hit gives both; otherwise the final side is both for
  meta-side both and unknown for meta-side unknown. A class-marker hit thus decides before
  a mixin hit is looked at.
\<close>

theorem C3_both_or_unknown:
  "ms = ''both'' \<or> ms = ''unknown'' \<Longrightarrow>
   fst (decide_side ld ms mr mh mx ch cx) =
     (if ch then ''risky''
      else if mh then ''both''
      else if ms = ''both'' then ''both'' else ''unknown'')"
  by (auto simp: decide_side_def)

theorem C3_witness:
  "(''unknown'' = ''both'' \<or> ''unknown'' = ''unknown'') \<and>
   fst (decide_side ''rift'' ''unknown'' [''r''] True [''m''] True [''c'']) = ''risky'' \<and>
   fst (decide_side ''rift'' ''unknown'' [''r''] True [''m''] False []) = ''both'' \<and>
   fst (decide_side ''rift'' ''unknown'' [''r''] False [] False []) = ''unknown'' \<and>
   fst (decide_side ''fabric'' ''both'' [''r''] False [] False []) = ''both''"
  using C3_both_or_unknown [of "''unknown''" "''rift''" "[''r'']" True "[''m'']" True "[''c'']"]
        C3_both_or_unknown [of "''unknown''" "''rift''" "[''r'']" True "[''m'']" False "[]"]
        C3_both_or_unknown [of "''unknown''" "''rift''" "[''r'']" False "[]" False "[]"]
        C3_both_or_unknown [of "''both''" "''fabric''" "[''r'']" False "[]" False "[]"]
  by simp

text \<open>
  C7. For every input, the reasons list is the meta reasons tagged \<open>[meta/<loader>]\<close>, then
  the mixin reasons tagged \<open>[mixin]\<close>, then the class-scan reasons tagged \<open>[class-scan]\<close>,
  then the synthesized warning, in this order, where a scanner's reasons are present exactly
  when that scanner took part in the verdict: both scanners and the warning when meta-side
  is server-only and one of them hit; the class scanner when meta-side is neither
  client-only nor server-only and it hit; the mixin scanner when meta-side is neither
  client-only nor server-only, the class scanner did not hit and the mixin scanner did.
\<close>

theorem C7_reasons_order:
  "snd (decide_side ld ms mr mh mx ch cx) =
     map (\<lambda>r. ''[meta/'' @ ld @ ''] '' @ r) mr
     @ (if (ms = ''server_only'' \<and> (ch \<or> mh))
           \<or> (ms \<noteq> ''client_only'' \<and> ms \<noteq> ''server_only'' \<and> \<not> ch \<and> mh)
        then map (\<lambda>r. ''[mixin] '' @ r) mx else [])
     @ (if (ms = ''server_only'' \<and> (ch \<or> mh))
           \<or> (ms \<noteq> ''client_only'' \<and> ms \<noteq> ''server_only'' \<and> ch)
        then map (\<lambda>r. ''[class-scan] '' @ r) cx else [])
     @ (if ms = ''server_only'' \<and> (ch \<or> mh) then [mispackaged_warning] else [])"
proof -
  have t: "tag_meta ld = (\<lambda>r. ''[meta/'' @ ld @ ''] '' @ r)"
    "tag_mixin = (\<lambda>r. ''[mixin] '' @ r)" "tag_class = (\<lambda>r. ''[class-scan] '' @ r)"
    by (simp_all add: fun_eq_iff tag_meta_def tag_mixin_def tag_class_def)
  show ?thesis
    unfolding decide_side_def t Let_def by (cases "ms = ''client_only''"; cases "ms = ''server_only''"; cases ch; cases mh) simp_all
qed

theorem C7_witness:
  "snd (decide_side ''quilt'' ''server_only'' [''e''] True [''m''] True [''c'']) =
     [''[meta/quilt] e'', ''[mixin] m'', ''[class-scan] c'', mispackaged_warning] \<and>
   snd (decide_side ''rift'' ''unknown'' [''e''] True [''m''] True [''c'']) =
     [''[meta/rift] e'', ''[class-scan] c''] \<and>
   snd (decide_side ''rift'' ''unknown'' [''e''] True [''m''] False []) =
     [''[meta/rift] e'', ''[mixin] m'']"
  using C7_reasons_order [of "''quilt''" "''server_only''" "[''e'']" True "[''m'']" True "[''c'']"]
        C7_reasons_order [of "''rift''" "''unknown''" "[''e'']" True "[''m'']" True "[''c'']"]
        C7_reasons_order [of "''rift''" "''unknown''" "[''e'']" True "[''m'']" False "[]"]
  by simp

section \<open>Properties of the class-marker scanner\<close>

lemma scan_class_loop_view:
  "scan_class_loop z mc mb ps scanned hits =
     hits @ view_hits (map (\<lambda>p. (p, map_option (take mb) (zopen z p)))
                         (take (mc - scanned) (filter (\<lambda>p. endswith p ''.class'') ps)))"
proof (induction ps arbitrary: scanned hits)
  case Nil
  then show ?case by simp
next
  case (Cons p ps)
  show ?case
  proof (cases "endswith p ''.class''")
    case False
    then show ?thesis using Cons.IH by simp
  next
    case cls: True
    show ?thesis
    proof (cases "scanned + 1 > mc")
      case True
      then show ?thesis using cls by simp
    next
      case False
      then have k: "mc - scanned = Suc (mc - (scanned + 1))"
        by arith
      show ?thesis using cls False Cons.IH [of "scanned + 1"]
        by (simp add: k split: option.splits)
    qed
  qed
qed

lemma scan_class_by_view:
  "scan_class_bytes_for_client_markers z mc mb =
     (view_hits (class_view z mc mb) \<noteq> [], view_hits (class_view z mc mb))"
  by (simp add: scan_class_bytes_for_client_markers_def class_view_def scan_class_loop_view Let_def)

lemma startswith_set: "startswith s m \<Longrightarrow> set m \<subseteq> set s"
  unfolding startswith_def by (metis set_take_subset)

lemma bytes_contains_set: "bytes_contains d m \<Longrightarrow> set m \<subseteq> set d"
proof (induction d)
  case Nil
  then show ?case by simp
next
  case (Cons a d)
  then show ?case using startswith_set [of "a # d" m] by auto
qed

lemma first_marker_none:
  "first_marker ms d = None \<longleftrightarrow> (\<forall>m \<in> set ms. \<not> bytes_contains d m)"
  by (induction ms) auto

lemma view_hits_none:
  "(\<forall>(p, c) \<in> set v. \<forall>d. c = Some d \<longrightarrow> first_marker markers d = None) \<Longrightarrow> view_hits v = []"
  by (induction v rule: view_hits.induct) auto

text \<open>
  C8. The class-marker scanner looks only at the first \<open>max_classes\<close> class entries and at
  the first \<open>max_bytes_per_class\<close> bytes of each (300 and 200000 by default): two archives
  that agree on these prefixes get the same hit flag and the same reasons, and when no
  marker occurs inside the prefixes there is no hit, wherever else a marker may be.
\<close>

theorem C8_class_scan_bounded:
  "(class_view z1 mc mb = class_view z2 mc mb \<longrightarrow>
      scan_class_bytes_for_client_markers z1 mc mb =
      scan_class_bytes_for_client_markers z2 mc mb) \<and>
   ((\<forall>p \<in> set (take mc (filter (\<lambda>p. endswith p ''.class'') (namelist z))).
       \<forall>d. zopen z p = Some d \<longrightarrow> (\<forall>m \<in> set markers. \<not> bytes_contains (take mb d) m)) \<longrightarrow>
      scan_class_bytes_for_client_markers z mc mb = (False, []))"
proof (intro conjI impI)
  assume "class_view z1 mc mb = class_view z2 mc mb"
  then show "scan_class_bytes_for_client_markers z1 mc mb =
             scan_class_bytes_for_client_markers z2 mc mb"
    by (simp add: scan_class_by_view)
next
  assume h: "\<forall>p \<in> set (take mc (filter (\<lambda>p. endswith p ''.class'') (namelist z))).
       \<forall>d. zopen z p = Some d \<longrightarrow> (\<forall>m \<in> set markers. \<not> bytes_contains (take mb d) m)"
  have "view_hits (class_view z mc mb) = []"
  proof (rule view_hits_none)
    show "\<forall>(p, c) \<in> set (class_view z mc mb).
            \<forall>d. c = Some d \<longrightarrow> first_marker markers d = None"
      using h by (auto simp: class_view_def first_marker_none)
  qed
  then show "scan_class_bytes_for_client_markers z mc mb = (False, [])"
    by (simp add: scan_class_by_view)
qed

lemma class_suffix_examples:
  "endswith ''A.class'' ''.class''" "endswith ''B.class'' ''.class''"
  by (simp_all add: endswith_def)

lemma class_view_capped:
  "class_view capped_archive 300 200000 =
     replicate 300 (''A.class'', Some (replicate 200000 (CHR ''a'')))"
  by (simp add: class_view_def capped_archive_def class_suffix_examples)

lemma class_view_plain:
  "class_view plain_archive 300 200000 =
     replicate 300 (''A.class'', Some (replicate 200000 (CHR ''a'')))"
  by (simp add: class_view_def plain_archive_def class_suffix_examples)

lemma no_marker_in_padding:
  "m \<in> set markers \<Longrightarrow> \<not> bytes_contains (replicate 200000 (CHR ''a'')) m"
  using bytes_contains_set [of "replicate 200000 (CHR ''a'')" m]
  by (auto simp: markers_def)

theorem C8_witness:
  "class_view capped_archive 300 200000 = class_view plain_archive 300 200000 \<and>
   scan_class_bytes_for_client_markers capped_archive 300 200000 =
     scan_class_bytes_for_client_markers plain_archive 300 200000 \<and>
   scan_class_bytes_for_client_markers capped_archive 300 200000 = (False, [])"
proof -
  have a: "class_view capped_archive 300 200000 = class_view plain_archive 300 200000"
    by (simp add: class_view_capped class_view_plain)
  have b: "\<forall>p \<in> set (take 300 (filter (\<lambda>p. endswith p ''.class'') (namelist capped_archive))).
       \<forall>d. zopen capped_archive p = Some d \<longrightarrow>
         (\<forall>m \<in> set markers. \<not> bytes_contains (take 200000 d) m)"
    using no_marker_in_padding by (auto simp: capped_archive_def class_suffix_examples)
  show ?thesis
    using a b C8_class_scan_bounded [of capped_archive 300 200000 plain_archive capped_archive]
    by blast
qed

text \<open>A marker inside the caps is found.\<close>

lemma scan_class_hit_example:
  "scan_class_bytes_for_client_markers
     \<lparr>namelist = [''x/B.class''], zopen = (\<lambda>p. Some ''..org/lwjgl/opengl'')\<rparr> 300 200000
   = (True, [''class bytes contain marker: org/lwjgl/''])"
  by (simp add: scan_class_bytes_for_client_markers_def endswith_def markers_def startswith_def
      class_reason_def)

section \<open>Properties of the handlers and the registry\<close>

lemmas handler_splits =
  option.splits sum.splits json.splits if_splits prod.splits list.splits

lemma registry_after_keeps:
  assumes "\<And>mods'. res = Inr mods' \<Longrightarrow> mods' k = Some r" and "mods k = Some r"
  shows "registry_after res mods k = Some r"
  using assms by (cases res) (simp_all add: registry_after_def)

lemma Fabric_returns_keeps:
  "FabricModHandler L fs p mods = Inr mods' \<Longrightarrow> mods k = Some r \<Longrightarrow> mods' k = Some r"
  unfolding FabricModHandler_def
  by (auto simp: Let_def split: handler_splits)

lemma Fabric_keeps:
  "mods k = Some r \<Longrightarrow> registry_after (FabricModHandler L fs p mods) mods k = Some r"
  by (rule registry_after_keeps) (auto dest: Fabric_returns_keeps)

lemma Rift_returns_keeps:
  "RiftModHandler L fs p mods = Inr mods' \<Longrightarrow> mods k = Some r \<Longrightarrow> mods' k = Some r"
  unfolding RiftModHandler_def
  by (auto simp: Let_def split: handler_splits)

lemma Rift_keeps:
  "mods k = Some r \<Longrightarrow> registry_after (RiftModHandler L fs p mods) mods k = Some r"
  by (rule registry_after_keeps) (auto dest: Rift_returns_keeps)

lemma Quilt_returns_keeps:
  "QuiltModHandler L fs p mods = Inr mods' \<Longrightarrow> mods k = Some r \<Longrightarrow> mods' k = Some r"
  unfolding QuiltModHandler_def
  by (auto simp: Let_def split: handler_splits)

lemma Quilt_keeps:
  "mods k = Some r \<Longrightarrow> registry_after (QuiltModHandler L fs p mods) mods k = Some r"
  by (rule registry_after_keeps) (auto dest: Quilt_returns_keeps)

lemma LForge_returns_keeps:
  "LForgeModHandler L fs p mods = Inr mods' \<Longrightarrow> mods k = Some r \<Longrightarrow> mods' k = Some r"
  unfolding LForgeModHandler_def
  by (auto simp: Let_def split: handler_splits)

lemma LForge_keeps:
  "mods k = Some r \<Longrightarrow> registry_after (LForgeModHandler L fs p mods) mods k = Some r"
  by (rule registry_after_keeps) (auto dest: LForge_returns_keeps)

lemma MForge_returns_keeps:
  "MForgeModHandler L fs p mods = Inr mods' \<Longrightarrow> mods k = Some r \<Longrightarrow> mods' k = Some r"
  unfolding MForgeModHandler_def
  by (auto simp: Let_def split: handler_splits)

lemma MForge_keeps:
  "mods k = Some r \<Longrightarrow> registry_after (MForgeModHandler L fs p mods) mods k = Some r"
  by (rule registry_after_keeps) (auto dest: MForge_returns_keeps)

lemma NeoForge_returns_keeps:
  "NeoForgeModHandler L fs p mods = Inr mods' \<Longrightarrow> mods k = Some r \<Longrightarrow> mods' k = Some r"
  unfolding NeoForgeModHandler_def
  by (auto simp: Let_def split: handler_splits)

lemma NeoForge_keeps:
  "mods k = Some r \<Longrightarrow> registry_after (NeoForgeModHandler L fs p mods) mods k = Some r"
  by (rule registry_after_keeps) (auto dest: NeoForge_returns_keeps)

lemma Universal_returns_keeps:
  "UniversalHandler L fs p mods = Inr mods' \<Longrightarrow> mods k = Some r \<Longrightarrow> mods' k = Some r"
  unfolding UniversalHandler_def
  by (auto simp: Let_def split: handler_splits)

lemma Universal_keeps:
  "mods k = Some r \<Longrightarrow> registry_after (UniversalHandler L fs p mods) mods k = Some r"
  by (rule registry_after_keeps) (auto dest: Universal_returns_keeps)

lemma Special_same: "SpecialHandler L fs p mods = Inr mods"
  unfolding SpecialHandler_def
  by (auto simp: Let_def split: handler_splits)

lemma Jar_keeps:
  assumes "mods k = Some r"
  shows "registry_after (JarFileHandler L fs p mods) mods k = Some r"
proof (cases "fs p")
  case None
  then show ?thesis using assms by (simp add: JarFileHandler_def registry_after_def)
next
  case (Some z)
  have s: "registry_after (SpecialHandler L fs p mods) mods k = Some r"
    using assms by (simp add: Special_same registry_after_def)
  show ?thesis
    unfolding JarFileHandler_def
    using Some s assms
      Fabric_keeps [where mods=mods and k=k and r=r and L=L and fs=fs and p=p]
      Rift_keeps [where mods=mods and k=k and r=r and L=L and fs=fs and p=p]
      Quilt_keeps [where mods=mods and k=k and r=r and L=L and fs=fs and p=p]
      LForge_keeps [where mods=mods and k=k and r=r and L=L and fs=fs and p=p]
      MForge_keeps [where mods=mods and k=k and r=r and L=L and fs=fs and p=p]
      NeoForge_keeps [where mods=mods and k=k and r=r and L=L and fs=fs and p=p]
    by simp
qed

lemma path_item_file_keeps:
  assumes "mods k = Some r"
  shows "snd (path_item L fs fp File mods) k = Some r"
proof -
  have u: "snd (case UniversalHandler L fs fp mods of
                  Inl e \<Rightarrow> (Some e, mods) | Inr mods' \<Rightarrow> (None, mods')) k = Some r"
    using Universal_keeps [where mods=mods and k=k and r=r and L=L and fs=fs and p=fp] assms
    by (cases "UniversalHandler L fs fp mods") (simp_all add: registry_after_def)
  have j: "snd (case JarFileHandler L fs fp mods of
                  Inl e \<Rightarrow> (Some e, mods) | Inr mods' \<Rightarrow> (None, mods')) k = Some r"
    using Jar_keeps [where mods=mods and k=k and r=r and L=L and fs=fs and p=fp] assms
    by (cases "JarFileHandler L fs fp mods") (simp_all add: registry_after_def)
  show ?thesis using u j assms by simp
qed

lemma walk_keeps:
  "mods k = Some r \<Longrightarrow> snd (PathHandler L fs d ch mods) k = Some r"
  "mods k = Some r \<Longrightarrow> snd (path_item L fs fp node mods) k = Some r"
proof (induction L fs d ch mods and L fs fp node mods rule: PathHandler_path_item.induct)
  case (1 L fs folder_path mods)
  then show ?case by simp
next
  case (2 L fs folder_path item node rest mods)
  show ?case
  proof (cases "path_item L fs (path_join folder_path item) node mods")
    case (Pair eo m1)
    have m1: "m1 k = Some r" using "2.IH"(1) "2.prems" Pair by simp
    show ?thesis
    proof (cases eo)
      case None
      then show ?thesis using Pair m1 "2.IH"(2) by simp
    next
      case (Some e)
      then show ?thesis using Pair m1 by simp
    qed
  qed
next
  case (3 L fs full_path children mods)
  then show ?case by simp
next
  case (4 L fs full_path mods)
  then show ?case by (rule path_item_file_keeps)
qed

lemma load_loop_keeps:
  "mods k = Some r \<Longrightarrow> snd (load_loop L items mods) k = Some r"
proof (induction items arbitrary: mods)
  case Nil
  then show ?case by simp
next
  case (Cons x xs)
  show ?case
  proof (cases x)
    case (JObj d)
    then show ?thesis using Cons.prems
      by (auto simp: Let_def intro!: Cons.IH)
  qed (use Cons.prems in simp_all)
qed

lemma Rift_inserts:
  assumes "RiftModHandler L fs p mods = Inr mods'" "mods k = None" "mods' k = Some r"
  shows "\<exists>z sd rs. fs p = Some z \<and>
       merged_verdict L z ''rift'' ''unknown'' [''riftmod.json: no standard sided metadata'']
         = Some (sd, rs) \<and>
       side r = JStr sd \<and> reasons r = JArr (map JStr rs) \<and> loader r = JStr ''rift'' \<and>
       k = make_mod_key L (modid r) (loader r) (version r)"
  using assms unfolding RiftModHandler_def merged_verdict_def
  by (auto simp: Let_def split: handler_splits)

lemma LForge_inserts:
  assumes "LForgeModHandler L fs p mods = Inr mods'" "mods k = None" "mods' k = Some r"
  shows "\<exists>z sd rs. fs p = Some z \<and>
       merged_verdict L z ''forge_legacy'' ''unknown''
         [''forge legacy: mcmod.info has no reliable sided metadata''] = Some (sd, rs) \<and>
       side r = JStr sd \<and> reasons r = JArr (map JStr rs) \<and> loader r = JStr ''forge_legacy'' \<and>
       k = make_mod_key L (modid r) (loader r) (version r)"
  using assms unfolding LForgeModHandler_def merged_verdict_def
  by (auto simp: Let_def split: handler_splits)

lemma MForge_inserts:
  assumes "MForgeModHandler L fs p mods = Inr mods'" "mods k = None" "mods' k = Some r"
  shows "\<exists>z sd rs. fs p = Some z \<and>
       merged_verdict L z ''forge'' ''unknown''
         [''forge mods.toml: no reliable sided metadata; using class scan''] = Some (sd, rs) \<and>
       side r = JStr sd \<and> reasons r = JArr (map JStr rs) \<and> loader r = JStr ''forge'' \<and>
       k = make_mod_key L (modid r) (loader r) (version r)"
  using assms unfolding MForgeModHandler_def merged_verdict_def
  by (auto simp: Let_def split: handler_splits)

lemma NeoForge_inserts:
  assumes "NeoForgeModHandler L fs p mods = Inr mods'" "mods k = None" "mods' k = Some r"
  shows "\<exists>z sd rs. fs p = Some z \<and>
       merged_verdict L z ''neoforge'' ''unknown''
         [''neoforge mods.toml: no reliable sided metadata; using class scan''] = Some (sd, rs) \<and>
       side r = JStr sd \<and> reasons r = JArr (map JStr rs) \<and> loader r = JStr ''neoforge'' \<and>
       k = make_mod_key L (modid r) (loader r) (version r)"
  using assms unfolding NeoForgeModHandler_def merged_verdict_def
  by (auto simp: Let_def split: handler_splits)

lemma Fabric_inserts:
  assumes "FabricModHandler L fs p mods = Inr mods'" "mods k = None" "mods' k = Some r"
  shows "\<exists>z t data ms mr dbg sd rs. fs p = Some z \<and>
       safeRead_from_zip L z ''fabric.mod.json'' = Some t \<and>
       JSONClean L t = Inr (JObj data) \<and>
       extract_fabric_side_from_metadata data = Inr (ms, mr, dbg) \<and>
       merged_verdict L z ''fabric'' ms mr = Some (sd, rs) \<and>
       side r = JStr sd \<and> reasons r = JArr (map JStr rs) \<and> loader r = JStr ''fabric'' \<and>
       k = make_mod_key L (modid r) (loader r) (version r)"
  using assms unfolding FabricModHandler_def merged_verdict_def
  by (fastforce simp: Let_def split: handler_splits)

lemma Quilt_inserts:
  assumes "QuiltModHandler L fs p mods = Inr mods'" "mods k = None" "mods' k = Some r"
  shows "\<exists>z t data ms mr sd rs. fs p = Some z \<and>
       safeRead_from_zip L z ''quilt.mod.json'' = Some t \<and>
       JSONClean L t = Inr (JObj data) \<and>
       quilt_meta_guess data = Some (ms, mr) \<and>
       merged_verdict L z ''quilt'' ms mr = Some (sd, rs) \<and>
       side r = JStr sd \<and> reasons r = JArr (map JStr rs) \<and> loader r = JStr ''quilt'' \<and>
       k = make_mod_key L (modid r) (loader r) (version r)"
  using assms unfolding QuiltModHandler_def merged_verdict_def quilt_meta_guess_def
  by (fastforce simp: Let_def split: handler_splits)

lemma Universal_inserts:
  assumes "UniversalHandler L fs p mods = Inr mods'" "mods k = None" "mods' k = Some r"
  shows "side r = JStr ''unknown'' \<and>
       reasons r = JArr [JStr ''legacy/zip: mcmod.info has no reliable sided metadata''] \<and>
       loader r = JStr ''universal'' \<and>
       k = make_mod_key L (modid r) (loader r) (version r)"
  using assms unfolding UniversalHandler_def
  by (auto simp: Let_def split: handler_splits)

section \<open>The concrete archives, evaluated\<close>

lemma example_names:
  "namelist fabric_jar = [''fabric.mod.json'']"
  "namelist rift_jar = [''riftmod.json'', ''X.class'']"
  "namelist old_zip = [''mcmod.info'', ''X.class'']"
  "namelist special_jar = [''X.class'']"
  by (simp_all add: fabric_jar_def rift_jar_def old_zip_def special_jar_def)

lemma example_reads:
  "safeRead_from_zip example_libs fabric_jar ''fabric.mod.json'' = Some ''{\"id\":\"a\"}''"
  "safeRead_from_zip example_libs rift_jar ''riftmod.json'' = Some ''{\"id\":\"a\"}''"
  "zopen old_zip ''mcmod.info'' = Some ''[{\"modid\":\"old\"}]''"
  by (simp_all add: fabric_jar_def rift_jar_def old_zip_def safeRead_from_zip_def example_libs_def)

lemma example_decode: "decode_utf8 example_libs b = Some b"
  by (simp add: example_libs_def)

lemma example_clean:
  "JSONClean example_libs ''{\"id\":\"a\"}'' = Inr (JObj [(''id'', JStr ''a'')])"
  "JSONClean example_libs ''[{\"modid\":\"old\"}]'' = Inr (JArr [JObj [(''modid'', JStr ''old'')]])"
  by (simp_all add: JSONClean_def strip_control_def example_libs_def)

lemma example_extract:
  "extract_fabric_side_from_metadata [(''id'', JStr ''a'')] =
     Inr (''unknown'', [''fabric.mod.json: no decisive env/entrypoints''],
          [(''environment'', JStr ''*''), (''entrypoints_keys'', JArr [])])"
  by (simp add: extract_fabric_side_from_metadata_def dict_get_def py_or_def str_lower_is_def
      lower_def lower_char_def Let_def)

lemma example_mixins:
  "scan_mixins_for_client_sections example_libs fabric_jar = Inr (False, [])"
  "scan_mixins_for_client_sections example_libs rift_jar = Inr (False, [])"
  "scan_mixins_for_client_sections example_libs old_zip = Inr (False, [])"
  "scan_mixins_for_client_sections example_libs special_jar = Inr (False, [])"
  by (simp_all add: scan_mixins_for_client_sections_def fabric_jar_def rift_jar_def old_zip_def
      special_jar_def endswith_def startswith_def lower_def lower_char_def basename_def)

lemma example_class_scans:
  "scan_class_default fabric_jar = (False, [])"
  "scan_class_default rift_jar = (True, [''class bytes contain marker: org/lwjgl/''])"
  "scan_class_default old_zip = (True, [''class bytes contain marker: org/lwjgl/''])"
  by (simp_all add: scan_class_default_def scan_class_bytes_for_client_markers_def fabric_jar_def
      rift_jar_def old_zip_def endswith_def startswith_def markers_def class_reason_def)

lemma example_keys:
  "make_mod_key example_libs (JStr ''a'') (JStr ''fabric'') (JStr ''unknown'') = ''a_fabric_unknown''"
  "make_mod_key example_libs (JStr ''a'') (JStr ''rift'') (JStr ''unknown'') = ''a_rift_unknown''"
  "make_mod_key example_libs (JStr ''old'') (JStr ''universal'') (JStr ''unknown'')
     = ''old_universal_unknown''"
  by (simp_all add: make_mod_key_def py_format_def py_or_def)

lemma example_fs_at:
  "example_fs ''mods/a.jar'' = None"
  "example_fs ''mods/b.jar'' = Some fabric_jar"
  "example_fs ''mods/r.jar'' = Some rift_jar"
  "example_fs ''mods/old.zip'' = Some old_zip"
  "example_fs ''mods/s.jar'' = Some special_jar"
  by (simp_all add: example_fs_def)

lemma fabric_example:
  "FabricModHandler example_libs example_fs ''mods/b.jar'' Map.empty
     = Inr [''a_fabric_unknown'' \<mapsto> fabric_record]"
  unfolding FabricModHandler_def
  by (simp add: example_fs_at example_names example_reads example_clean example_extract
      example_mixins example_class_scans example_keys dict_get_def py_or_def decide_side_def
      tag_meta_def fabric_record_def)

lemma fabric_example_again:
  "FabricModHandler example_libs example_fs ''mods/b.jar'' one_mod_registry = Inr one_mod_registry"
  unfolding FabricModHandler_def
  by (simp add: example_fs_at example_names example_reads example_clean example_extract
      example_mixins example_class_scans example_keys dict_get_def py_or_def decide_side_def
      tag_meta_def one_mod_registry_def)

lemma rift_example:
  "RiftModHandler example_libs example_fs ''mods/r.jar'' Map.empty
     = Inr [''a_rift_unknown'' \<mapsto> rift_record]"
  unfolding RiftModHandler_def
  by (simp add: example_fs_at example_names example_reads example_clean
      example_mixins example_class_scans example_keys dict_get_def py_or_def decide_side_def
      tag_meta_def tag_class_def rift_record_def)

lemma universal_example:
  "UniversalHandler example_libs example_fs ''mods/old.zip'' Map.empty
     = Inr [''old_universal_unknown'' \<mapsto> old_record]"
  unfolding UniversalHandler_def
  by (simp add: example_fs_at example_names example_reads example_decode example_clean
      example_keys dict_get_def py_or_def old_record_def Let_def)

lemma jar_examples:
  "JarFileHandler example_libs example_fs ''mods/a.jar'' mods = Inl BadZipFile"
  "JarFileHandler example_libs example_fs ''mods/b.jar'' mods
     = FabricModHandler example_libs example_fs ''mods/b.jar'' mods"
  "JarFileHandler example_libs example_fs ''mods/r.jar'' mods
     = RiftModHandler example_libs example_fs ''mods/r.jar'' mods"
  "JarFileHandler example_libs example_fs ''mods/s.jar'' mods = Inr mods"
  by (simp_all add: JarFileHandler_def example_fs_at example_names Special_same)

lemma example_paths:
  "path_join ''mods'' ''a.jar'' = ''mods/a.jar''"
  "path_join ''mods'' ''b.jar'' = ''mods/b.jar''"
  "endswith ''mods/a.jar'' ''.jar''" "\<not> endswith ''mods/a.jar'' ''.zip''"
  "\<not> endswith ''mods/a.jar'' ''.litemod''"
  "endswith ''mods/b.jar'' ''.jar''" "\<not> endswith ''mods/b.jar'' ''.zip''"
  "\<not> endswith ''mods/b.jar'' ''.litemod''"
  by (simp_all add: path_join_def startswith_def endswith_def)

text \<open>
  C4. A walk over a directory that holds \<open>a.jar\<close>, which is not an archive, and then the
  valid \<open>b.jar\<close>: the exception raised when \<open>a.jar\<close> is opened leaves \<open>JarFileHandler\<close> and
  \<open>PathHandler\<close>, and \<open>b.jar\<close> is never scanned, although the walk over \<open>b.jar\<close> alone
  completes and stores its record.
\<close>

theorem C4_walk_stops_at_bad_archive:
  "PathHandler example_libs example_fs ''mods'' [(''a.jar'', File), (''b.jar'', File)] Map.empty
     = (Some BadZipFile, Map.empty) \<and>
   PathHandler example_libs example_fs ''mods'' [(''b.jar'', File)] Map.empty
     = (None, [''a_fabric_unknown'' \<mapsto> fabric_record])"
  by (simp add: example_paths jar_examples fabric_example)

section \<open>Records stored by the dispatcher\<close>

lemma registry_after_new:
  assumes "registry_after res mods k = Some r" "mods k = None"
  obtains mods' where "res = Inr mods'" "mods' k = Some r"
  using assms by (cases res) (simp_all add: registry_after_def)

lemma Jar_routes:
  assumes "JarFileHandler L fs p mods = Inr mods'"
  shows "FabricModHandler L fs p mods = Inr mods' \<or> RiftModHandler L fs p mods = Inr mods' \<or>
         QuiltModHandler L fs p mods = Inr mods' \<or> LForgeModHandler L fs p mods = Inr mods' \<or>
         MForgeModHandler L fs p mods = Inr mods' \<or> NeoForgeModHandler L fs p mods = Inr mods' \<or>
         mods' = mods"
  using assms unfolding JarFileHandler_def
  by (simp add: Special_same split: option.splits if_splits)

lemma unsided_members:
  "(''rift'', [''riftmod.json: no standard sided metadata'']) \<in> set unsided_loaders"
  "(''forge_legacy'', [''forge legacy: mcmod.info has no reliable sided metadata''])
     \<in> set unsided_loaders"
  "(''forge'', [''forge mods.toml: no reliable sided metadata; using class scan''])
     \<in> set unsided_loaders"
  "(''neoforge'', [''neoforge mods.toml: no reliable sided metadata; using class scan''])
     \<in> set unsided_loaders"
  by (simp_all add: unsided_loaders_def)

lemma Jar_inserts:
  assumes "JarFileHandler L fs p mods = Inr mods'" "mods k = None" "mods' k = Some r"
  shows "(\<exists>z ld ms mr sd rs. fs p = Some z \<and> merged_verdict L z ld ms mr = Some (sd, rs) \<and>
            loader r = JStr ld \<and> side r = JStr sd \<and> reasons r = JArr (map JStr rs) \<and>
            ((ld = ''fabric'' \<and>
              (\<exists>t data dbg.
                 safeRead_from_zip L z ''fabric.mod.json'' = Some t \<and>
                 JSONClean L t = Inr (JObj data) \<and>
                 extract_fabric_side_from_metadata data = Inr (ms, mr, dbg))) \<or>
             (ld = ''quilt'' \<and>
              (\<exists>t data.
                 safeRead_from_zip L z ''quilt.mod.json'' = Some t \<and>
                 JSONClean L t = Inr (JObj data) \<and>
                 quilt_meta_guess data = Some (ms, mr))) \<or>
             (ms = ''unknown'' \<and> (ld, mr) \<in> set unsided_loaders))) \<and>
         k = make_mod_key L (modid r) (loader r) (version r)"
proof -
  consider (fabric) "FabricModHandler L fs p mods = Inr mods'"
    | (rift) "RiftModHandler L fs p mods = Inr mods'"
    | (quilt) "QuiltModHandler L fs p mods = Inr mods'"
    | (lforge) "LForgeModHandler L fs p mods = Inr mods'"
    | (mforge) "MForgeModHandler L fs p mods = Inr mods'"
    | (neoforge) "NeoForgeModHandler L fs p mods = Inr mods'"
    | (special) "mods' = mods"
    using Jar_routes [OF assms(1)] by blast
  then show ?thesis
  proof cases
    case fabric
    from Fabric_inserts [OF fabric assms(2,3)] show ?thesis by blast
  next
    case rift
    from Rift_inserts [OF rift assms(2,3)] unsided_members(1) show ?thesis by blast
  next
    case quilt
    from Quilt_inserts [OF quilt assms(2,3)] show ?thesis by blast
  next
    case lforge
    from LForge_inserts [OF lforge assms(2,3)] unsided_members(2) show ?thesis by blast
  next
    case mforge
    from MForge_inserts [OF mforge assms(2,3)] unsided_members(3) show ?thesis by blast
  next
    case neoforge
    from NeoForge_inserts [OF neoforge assms(2,3)] unsided_members(4) show ?thesis by blast
  next
    case special
    then show ?thesis using assms(2,3) by simp
  qed
qed

lemma py_or_idem: "py_or (py_or x u) u = py_or x u"
  by (simp add: py_or_def)

lemma make_mod_key_or:
  "make_mod_key L m (py_or l (JStr ''unknown'')) (py_or v (JStr ''unknown'')) = make_mod_key L m l v"
  by (simp add: make_mod_key_def py_or_idem)

lemma load_loop_new:
  "snd (load_loop L items mods) k = Some r \<Longrightarrow>
   mods k = Some r \<or> k = make_mod_key L (modid r) (loader r) (version r)"
proof (induction items arbitrary: mods)
  case Nil
  then show ?case by simp
next
  case (Cons x xs)
  show ?case
  proof (cases x)
    case (JObj d)
    define mi where "mi = \<lparr>modid = dict_get d ''modid'' (JStr []),
                  name = dict_get d ''name'' (JStr []),
                  version = dict_get d ''version'' (JStr []),
                  side = dict_get d ''side'' JNull,
                  loader = dict_get d ''loader'' JNull,
                  reasons = dict_get d ''reasons'' JNull,
                  debug = dict_get d ''debug'' JNull,
                  source_files = dict_get d ''source_files'' JNull\<rparr>"
    define key where "key = make_mod_key L (modid mi) (loader mi) (version mi)"
    define m1 where "m1 = (if mods key = None then mods(key \<mapsto> mi) else mods)"
    have step: "load_loop L (x # xs) mods = load_loop L xs m1"
      unfolding JObj m1_def key_def mi_def by (simp add: Let_def make_mod_key_or)
    from Cons.prems step have "snd (load_loop L xs m1) k = Some r" by simp
    from Cons.IH [OF this]
    have "m1 k = Some r \<or> k = make_mod_key L (modid r) (loader r) (version r)" .
    then show ?thesis
      unfolding m1_def key_def by (auto split: if_splits)
  qed (use Cons.prems in simp_all)
qed

section \<open>Claims about the registry\<close>

text \<open>
  C10. The catch-all handler never changes the registry and never raises, and an archive
  that the dispatcher routes to it (none of the six metadata names is in its name list)
  leaves the registry exactly as it was, whatever the archive holds.
\<close>

theorem C10_special_leaves_registry:
  "SpecialHandler L fs p mods = Inr mods \<and>
   (fs p = Some z \<and>
    ''fabric.mod.json'' \<notin> set (namelist z) \<and> ''riftmod.json'' \<notin> set (namelist z) \<and>
    ''quilt.mod.json'' \<notin> set (namelist z) \<and> ''mcmod.info'' \<notin> set (namelist z) \<and>
    ''META-INF/mods.toml'' \<notin> set (namelist z) \<and>
    ''META-INF/neoforge.mods.toml'' \<notin> set (namelist z)
    \<longrightarrow> JarFileHandler L fs p mods = Inr mods)"
  by (simp add: JarFileHandler_def Special_same list_ex_iff)

theorem C10_witness:
  "example_fs ''mods/s.jar'' = Some special_jar \<and>
   ''fabric.mod.json'' \<notin> set (namelist special_jar) \<and>
   ''riftmod.json'' \<notin> set (namelist special_jar) \<and>
   ''quilt.mod.json'' \<notin> set (namelist special_jar) \<and>
   ''mcmod.info'' \<notin> set (namelist special_jar) \<and>
   ''META-INF/mods.toml'' \<notin> set (namelist special_jar) \<and>
   ''META-INF/neoforge.mods.toml'' \<notin> set (namelist special_jar) \<and>
   scan_class_default special_jar = (True, [''class bytes contain marker: org/lwjgl/'']) \<and>
   JarFileHandler example_libs example_fs ''mods/s.jar'' one_mod_registry = Inr one_mod_registry"
  using C10_special_leaves_registry
          [of example_libs example_fs "''mods/s.jar''" one_mod_registry special_jar]
  by (simp add: example_fs_at example_names scan_class_default_def
      scan_class_bytes_for_client_markers_def special_jar_def endswith_def startswith_def
      markers_def class_reason_def)

text \<open>
  C6. No insertion overwrites: a record that is in the registry under some key is still
  there, unchanged, after any extractor, after the dispatcher, after a whole directory
  walk and after the loop that restores a snapshot, so a new record whose key is taken is
  dropped. A record that was not there before is stored under its composite key, which for
  string fields is the id, the loader (or \<open>unknown\<close>) and the version (or \<open>unknown\<close>)
  joined by underscores.
\<close>

theorem C6_first_seen_wins:
  "(mods k = Some r \<longrightarrow>
      registry_after (FabricModHandler L fs p mods) mods k = Some r \<and>
      registry_after (RiftModHandler L fs p mods) mods k = Some r \<and>
      registry_after (QuiltModHandler L fs p mods) mods k = Some r \<and>
      registry_after (LForgeModHandler L fs p mods) mods k = Some r \<and>
      registry_after (MForgeModHandler L fs p mods) mods k = Some r \<and>
      registry_after (NeoForgeModHandler L fs p mods) mods k = Some r \<and>
      registry_after (UniversalHandler L fs p mods) mods k = Some r \<and>
      registry_after (JarFileHandler L fs p mods) mods k = Some r \<and>
      snd (PathHandler L fs p ch mods) k = Some r \<and>
      snd (load_loop L items mods) k = Some r) \<and>
   (mods k = None \<longrightarrow>
      (registry_after (JarFileHandler L fs p mods) mods k = Some r \<longrightarrow>
         k = make_mod_key L (modid r) (loader r) (version r)) \<and>
      (registry_after (UniversalHandler L fs p mods) mods k = Some r \<longrightarrow>
         k = make_mod_key L (modid r) (loader r) (version r)) \<and>
      (snd (load_loop L items mods) k = Some r \<longrightarrow>
         k = make_mod_key L (modid r) (loader r) (version r))) \<and>
   make_mod_key L (JStr i) (JStr l) (JStr v) =
     i @ ''_'' @ (if l = [] then ''unknown'' else l) @ ''_'' @ (if v = [] then ''unknown'' else v)"
proof -
  have keeps: "registry_after (FabricModHandler L fs p mods) mods k = Some r \<and>
      registry_after (RiftModHandler L fs p mods) mods k = Some r \<and>
      registry_after (QuiltModHandler L fs p mods) mods k = Some r \<and>
      registry_after (LForgeModHandler L fs p mods) mods k = Some r \<and>
      registry_after (MForgeModHandler L fs p mods) mods k = Some r \<and>
      registry_after (NeoForgeModHandler L fs p mods) mods k = Some r \<and>
      registry_after (UniversalHandler L fs p mods) mods k = Some r \<and>
      registry_after (JarFileHandler L fs p mods) mods k = Some r \<and>
      snd (PathHandler L fs p ch mods) k = Some r \<and>
      snd (load_loop L items mods) k = Some r" if h: "mods k = Some r"
  proof (intro conjI)
    show "registry_after (FabricModHandler L fs p mods) mods k = Some r"
      using h by (rule Fabric_keeps)
    show "registry_after (RiftModHandler L fs p mods) mods k = Some r"
      using h by (rule Rift_keeps)
    show "registry_after (QuiltModHandler L fs p mods) mods k = Some r"
      using h by (rule Quilt_keeps)
    show "registry_after (LForgeModHandler L fs p mods) mods k = Some r"
      using h by (rule LForge_keeps)
    show "registry_after (MForgeModHandler L fs p mods) mods k = Some r"
      using h by (rule MForge_keeps)
    show "registry_after (NeoForgeModHandler L fs p mods) mods k = Some r"
      using h by (rule NeoForge_keeps)
    show "registry_after (UniversalHandler L fs p mods) mods k = Some r"
      using h by (rule Universal_keeps)
    show "registry_after (JarFileHandler L fs p mods) mods k = Some r"
      using h by (rule Jar_keeps)
    show "snd (PathHandler L fs p ch mods) k = Some r"
      using h by (rule walk_keeps(1))
    show "snd (load_loop L items mods) k = Some r"
      using h by (rule load_loop_keeps)
  qed
  have jar: "k = make_mod_key L (modid r) (loader r) (version r)"
    if n: "mods k = None" and a: "registry_after (JarFileHandler L fs p mods) mods k = Some r"
  proof -
    from a n obtain mods' where "JarFileHandler L fs p mods = Inr mods'" "mods' k = Some r"
      by (rule registry_after_new)
    from Jar_inserts [OF this(1) n this(2)] show ?thesis by blast
  qed
  have uni: "k = make_mod_key L (modid r) (loader r) (version r)"
    if n: "mods k = None" and a: "registry_after (UniversalHandler L fs p mods) mods k = Some r"
  proof -
    from a n obtain mods' where "UniversalHandler L fs p mods = Inr mods'" "mods' k = Some r"
      by (rule registry_after_new)
    from Universal_inserts [OF this(1) n this(2)] show ?thesis by blast
  qed
  have load: "k = make_mod_key L (modid r) (loader r) (version r)"
    if n: "mods k = None" and a: "snd (load_loop L items mods) k = Some r"
    using load_loop_new [OF a] n by simp
  have key: "make_mod_key L (JStr i) (JStr l) (JStr v) =
     i @ ''_'' @ (if l = [] then ''unknown'' else l) @ ''_'' @ (if v = [] then ''unknown'' else v)"
    by (simp add: make_mod_key_def py_or_def py_format_def)
  show ?thesis using keeps jar uni load key by blast
qed

lemma load_example:
  "load_loop example_libs snapshot_items Map.empty = (None, [''a_fabric_unknown'' \<mapsto> loaded_record])"
  by (simp add: snapshot_items_def loaded_record_def dict_get_def py_or_def Let_def
      make_mod_key_def py_format_def)

theorem C6_witness:
  "one_mod_registry ''a_fabric_unknown'' = Some first_record \<and>
   FabricModHandler example_libs example_fs ''mods/b.jar'' Map.empty
     = Inr [''a_fabric_unknown'' \<mapsto> fabric_record] \<and>
   registry_after (FabricModHandler example_libs example_fs ''mods/b.jar'' one_mod_registry)
     one_mod_registry ''a_fabric_unknown'' = Some first_record \<and>
   snd (load_loop example_libs snapshot_items one_mod_registry) ''a_fabric_unknown''
     = Some first_record \<and>
   (Map.empty :: registry) ''a_fabric_unknown'' = None \<and>
   registry_after (JarFileHandler example_libs example_fs ''mods/b.jar'' Map.empty) Map.empty
     ''a_fabric_unknown'' = Some fabric_record \<and>
   ''a_fabric_unknown''
     = make_mod_key example_libs (modid fabric_record) (loader fabric_record)
         (version fabric_record) \<and>
   (Map.empty :: registry) ''old_universal_unknown'' = None \<and>
   registry_after (UniversalHandler example_libs example_fs ''mods/old.zip'' Map.empty) Map.empty
     ''old_universal_unknown'' = Some old_record \<and>
   ''old_universal_unknown''
     = make_mod_key example_libs (modid old_record) (loader old_record) (version old_record) \<and>
   snd (load_loop example_libs snapshot_items Map.empty) ''a_fabric_unknown''
     = Some loaded_record \<and>
   ''a_fabric_unknown''
     = make_mod_key example_libs (modid loaded_record) (loader loaded_record)
         (version loaded_record)"
proof -
  have reg: "one_mod_registry ''a_fabric_unknown'' = Some first_record"
    by (simp add: one_mod_registry_def)
  have emp: "(Map.empty :: registry) key = None" for key
    by simp
  have jar: "registry_after (JarFileHandler example_libs example_fs ''mods/b.jar'' Map.empty)
               Map.empty ''a_fabric_unknown'' = Some fabric_record"
    by (simp add: jar_examples fabric_example registry_after_def)
  have uni: "registry_after (UniversalHandler example_libs example_fs ''mods/old.zip'' Map.empty)
               Map.empty ''old_universal_unknown'' = Some old_record"
    by (simp add: universal_example registry_after_def)
  have load: "snd (load_loop example_libs snapshot_items Map.empty) ''a_fabric_unknown''
                = Some loaded_record"
    by (simp add: load_example)
  have k1: "registry_after (FabricModHandler example_libs example_fs ''mods/b.jar''
               one_mod_registry) one_mod_registry ''a_fabric_unknown'' = Some first_record"
    and k2: "snd (load_loop example_libs snapshot_items one_mod_registry) ''a_fabric_unknown''
               = Some first_record"
    using reg
      C6_first_seen_wins
        [of one_mod_registry "''a_fabric_unknown''" first_record example_libs example_fs
            "''mods/b.jar''" "[]" snapshot_items]
    by blast+
  have n1: "''a_fabric_unknown''
     = make_mod_key example_libs (modid fabric_record) (loader fabric_record)
         (version fabric_record)"
    using emp jar
      C6_first_seen_wins
        [of Map.empty "''a_fabric_unknown''" fabric_record example_libs example_fs
            "''mods/b.jar''" "[]" "[]"]
    by blast
  have n2: "''old_universal_unknown''
     = make_mod_key example_libs (modid old_record) (loader old_record) (version old_record)"
    using emp uni
      C6_first_seen_wins
        [of Map.empty "''old_universal_unknown''" old_record example_libs example_fs
            "''mods/old.zip''" "[]" "[]"]
    by blast
  have n3: "''a_fabric_unknown''
     = make_mod_key example_libs (modid loaded_record) (loader loaded_record)
         (version loaded_record)"
    using emp load
      C6_first_seen_wins
        [of Map.empty "''a_fabric_unknown''" loaded_record example_libs example_fs
            "''mods/b.jar''" "[]" snapshot_items]
    by blast
  show ?thesis
    using reg fabric_example k1 k2 emp jar n1 uni n2 load n3 by blast
qed

section \<open>Which verdict a record carries\<close>

lemma example_verdicts:
  "merged_verdict example_libs rift_jar ''rift'' ''unknown''
     [''riftmod.json: no standard sided metadata'']
   = Some (''risky'', [''[meta/rift] riftmod.json: no standard sided metadata'',
                       ''[class-scan] class bytes contain marker: org/lwjgl/''])"
  "merged_verdict example_libs old_zip ''universal'' ''unknown''
     [''legacy/zip: mcmod.info has no reliable sided metadata'']
   = Some (''risky'', [''[meta/universal] legacy/zip: mcmod.info has no reliable sided metadata'',
                       ''[class-scan] class bytes contain marker: org/lwjgl/''])"
  by (simp_all add: merged_verdict_def example_mixins example_class_scans decide_side_def
      tag_meta_def tag_class_def)

text \<open>
  C9, as stated, fails for the universal handler: \<open>mods/old.zip\<close> has a class entry with
  a client marker, the merge of an indeterminate meta-side guess with the scanner results
  is risky, and the record stored for it has side \<open>unknown\<close>.
\<close>

theorem C9_counterexample:
  "UniversalHandler example_libs example_fs ''mods/old.zip'' Map.empty
     = Inr [''old_universal_unknown'' \<mapsto> old_record] \<and>
   side old_record = JStr ''unknown'' \<and>
   scan_class_default old_zip = (True, [''class bytes contain marker: org/lwjgl/'']) \<and>
   merged_verdict example_libs old_zip ''universal'' ''unknown''
     [''legacy/zip: mcmod.info has no reliable sided metadata'']
   = Some (''risky'', [''[meta/universal] legacy/zip: mcmod.info has no reliable sided metadata'',
                       ''[class-scan] class bytes contain marker: org/lwjgl/''])"
  by (simp add: universal_example example_class_scans example_verdicts old_record_def)

text \<open>
  C9, amended. A record that the dispatcher stores for a jar carries the side and the
  reasons that the decision engine gives for the meta-side guess of its loader merged with
  the results of both scanners on that archive, whatever the declared side. The guess is
  the one the loader's handler derives from the archive: for fabric, what
  \<open>_extract_fabric_side_from_metadata\<close> returns on the parsed \<open>fabric.mod.json\<close>; for
  quilt, the environment declared in the parsed \<open>quilt.mod.json\<close>; for rift, forge_legacy,
  forge and neoforge, \<open>unknown\<close> with the loader's fixed reason. A record that the
  universal handler stores (for a \<open>.zip\<close> or \<open>.litemod\<close> file) has side \<open>unknown\<close> and
  the one fixed reason, whatever a scanner would find.
\<close>

theorem C9_jar_records_carry_merged_verdict:
  "(mods k = None \<longrightarrow>
    registry_after (JarFileHandler L fs p mods) mods k = Some r \<longrightarrow>
      (\<exists>z ld ms mr sd rs.
          fs p = Some z \<and> merged_verdict L z ld ms mr = Some (sd, rs) \<and>
          loader r = JStr ld \<and> side r = JStr sd \<and> reasons r = JArr (map JStr rs) \<and>
          ((ld = ''fabric'' \<and>
            (\<exists>t data dbg.
               safeRead_from_zip L z ''fabric.mod.json'' = Some t \<and>
               JSONClean L t = Inr (JObj data) \<and>
               extract_fabric_side_from_metadata data = Inr (ms, mr, dbg))) \<or>
           (ld = ''quilt'' \<and>
            (\<exists>t data.
               safeRead_from_zip L z ''quilt.mod.json'' = Some t \<and>
               JSONClean L t = Inr (JObj data) \<and>
               quilt_meta_guess data = Some (ms, mr))) \<or>
           (ms = ''unknown'' \<and> (ld, mr) \<in> set unsided_loaders)))) \<and>
   (mods k = None \<longrightarrow>
    registry_after (UniversalHandler L fs p mods) mods k = Some r \<longrightarrow>
      loader r = JStr ''universal'' \<and> side r = JStr ''unknown'' \<and>
      reasons r = JArr [JStr ''legacy/zip: mcmod.info has no reliable sided metadata''])"
proof -
  have jar: "\<exists>z ld ms mr sd rs.
          fs p = Some z \<and> merged_verdict L z ld ms mr = Some (sd, rs) \<and>
          loader r = JStr ld \<and> side r = JStr sd \<and> reasons r = JArr (map JStr rs) \<and>
          ((ld = ''fabric'' \<and>
            (\<exists>t data dbg.
               safeRead_from_zip L z ''fabric.mod.json'' = Some t \<and>
               JSONClean L t = Inr (JObj data) \<and>
               extract_fabric_side_from_metadata data = Inr (ms, mr, dbg))) \<or>
           (ld = ''quilt'' \<and>
            (\<exists>t data.
               safeRead_from_zip L z ''quilt.mod.json'' = Some t \<and>
               JSONClean L t = Inr (JObj data) \<and>
               quilt_meta_guess data = Some (ms, mr))) \<or>
           (ms = ''unknown'' \<and> (ld, mr) \<in> set unsided_loaders))"
    if n: "mods k = None" and a: "registry_after (JarFileHandler L fs p mods) mods k = Some r"
  proof -
    from a n obtain mods' where "JarFileHandler L fs p mods = Inr mods'" "mods' k = Some r"
      by (rule registry_after_new)
    from Jar_inserts [OF this(1) n this(2)] show ?thesis by (rule conjunct1)
  qed
  have uni: "loader r = JStr ''universal'' \<and> side r = JStr ''unknown'' \<and>
      reasons r = JArr [JStr ''legacy/zip: mcmod.info has no reliable sided metadata'']"
    if n: "mods k = None" and a: "registry_after (UniversalHandler L fs p mods) mods k = Some r"
  proof -
    from a n obtain mods' where "UniversalHandler L fs p mods = Inr mods'" "mods' k = Some r"
      by (rule registry_after_new)
    from Universal_inserts [OF this(1) n this(2)] show ?thesis by simp
  qed
  show ?thesis using jar uni by blast
qed

theorem C9_witness:
  "(Map.empty :: registry) ''a_rift_unknown'' = None \<and>
   registry_after (JarFileHandler example_libs example_fs ''mods/r.jar'' Map.empty) Map.empty
     ''a_rift_unknown'' = Some rift_record \<and>
   (\<exists>z ld ms mr sd rs.
      example_fs ''mods/r.jar'' = Some z \<and>
      merged_verdict example_libs z ld ms mr = Some (sd, rs) \<and>
      loader rift_record = JStr ld \<and> side rift_record = JStr sd \<and>
      reasons rift_record = JArr (map JStr rs) \<and>
      ((ld = ''fabric'' \<and>
        (\<exists>t data dbg.
           safeRead_from_zip example_libs z ''fabric.mod.json'' = Some t \<and>
           JSONClean example_libs t = Inr (JObj data) \<and>
           extract_fabric_side_from_metadata data = Inr (ms, mr, dbg))) \<or>
       (ld = ''quilt'' \<and>
        (\<exists>t data.
           safeRead_from_zip example_libs z ''quilt.mod.json'' = Some t \<and>
           JSONClean example_libs t = Inr (JObj data) \<and>
           quilt_meta_guess data = Some (ms, mr))) \<or>
       (ms = ''unknown'' \<and> (ld, mr) \<in> set unsided_loaders))) \<and>
   side rift_record = JStr ''risky'' \<and>
   (Map.empty :: registry) ''a_fabric_unknown'' = None \<and>
   registry_after (JarFileHandler example_libs example_fs ''mods/b.jar'' Map.empty) Map.empty
     ''a_fabric_unknown'' = Some fabric_record \<and>
   (\<exists>z ld ms mr sd rs.
      example_fs ''mods/b.jar'' = Some z \<and>
      merged_verdict example_libs z ld ms mr = Some (sd, rs) \<and>
      loader fabric_record = JStr ld \<and> side fabric_record = JStr sd \<and>
      reasons fabric_record = JArr (map JStr rs) \<and>
      ((ld = ''fabric'' \<and>
        (\<exists>t data dbg.
           safeRead_from_zip example_libs z ''fabric.mod.json'' = Some t \<and>
           JSONClean example_libs t = Inr (JObj data) \<and>
           extract_fabric_side_from_metadata data = Inr (ms, mr, dbg))) \<or>
       (ld = ''quilt'' \<and>
        (\<exists>t data.
           safeRead_from_zip example_libs z ''quilt.mod.json'' = Some t \<and>
           JSONClean example_libs t = Inr (JObj data) \<and>
           quilt_meta_guess data = Some (ms, mr))) \<or>
       (ms = ''unknown'' \<and> (ld, mr) \<in> set unsided_loaders))) \<and>
   (Map.empty :: registry) ''old_universal_unknown'' = None \<and>
   registry_after (UniversalHandler example_libs example_fs ''mods/old.zip'' Map.empty) Map.empty
     ''old_universal_unknown'' = Some old_record \<and>
   loader old_record = JStr ''universal'' \<and> side old_record = JStr ''unknown'' \<and>
   reasons old_record = JArr [JStr ''legacy/zip: mcmod.info has no reliable sided metadata'']"
proof -
  have emp: "(Map.empty :: registry) key = None" for key
    by simp
  have jar: "registry_after (JarFileHandler example_libs example_fs ''mods/r.jar'' Map.empty)
               Map.empty ''a_rift_unknown'' = Some rift_record"
    by (simp add: jar_examples rift_example registry_after_def)
  have fab: "registry_after (JarFileHandler example_libs example_fs ''mods/b.jar'' Map.empty)
               Map.empty ''a_fabric_unknown'' = Some fabric_record"
    by (simp add: jar_examples fabric_example registry_after_def)
  have uni: "registry_after (UniversalHandler example_libs example_fs ''mods/old.zip'' Map.empty)
               Map.empty ''old_universal_unknown'' = Some old_record"
    by (simp add: universal_example registry_after_def)
  have risky: "side rift_record = JStr ''risky''"
    by (simp add: rift_record_def)
  have a: "(\<exists>z ld ms mr sd rs.
      example_fs ''mods/r.jar'' = Some z \<and>
      merged_verdict example_libs z ld ms mr = Some (sd, rs) \<and>
      loader rift_record = JStr ld \<and> side rift_record = JStr sd \<and>
      reasons rift_record = JArr (map JStr rs) \<and>
      ((ld = ''fabric'' \<and>
        (\<exists>t data dbg.
           safeRead_from_zip example_libs z ''fabric.mod.json'' = Some t \<and>
           JSONClean example_libs t = Inr (JObj data) \<and>
           extract_fabric_side_from_metadata data = Inr (ms, mr, dbg))) \<or>
       (ld = ''quilt'' \<and>
        (\<exists>t data.
           safeRead_from_zip example_libs z ''quilt.mod.json'' = Some t \<and>
           JSONClean example_libs t = Inr (JObj data) \<and>
           quilt_meta_guess data = Some (ms, mr))) \<or>
       (ms = ''unknown'' \<and> (ld, mr) \<in> set unsided_loaders)))"
    by (rule C9_jar_records_carry_merged_verdict
          [of Map.empty "''a_rift_unknown''" example_libs example_fs "''mods/r.jar''" rift_record,
           THEN conjunct1, THEN mp, THEN mp, OF emp jar])
  have c: "(\<exists>z ld ms mr sd rs.
      example_fs ''mods/b.jar'' = Some z \<and>
      merged_verdict example_libs z ld ms mr = Some (sd, rs) \<and>
      loader fabric_record = JStr ld \<and> side fabric_record = JStr sd \<and>
      reasons fabric_record = JArr (map JStr rs) \<and>
      ((ld = ''fabric'' \<and>
        (\<exists>t data dbg.
           safeRead_from_zip example_libs z ''fabric.mod.json'' = Some t \<and>
           JSONClean example_libs t = Inr (JObj data) \<and>
           extract_fabric_side_from_metadata data = Inr (ms, mr, dbg))) \<or>
       (ld = ''quilt'' \<and>
        (\<exists>t data.
           safeRead_from_zip example_libs z ''quilt.mod.json'' = Some t \<and>
           JSONClean example_libs t = Inr (JObj data) \<and>
           quilt_meta_guess data = Some (ms, mr))) \<or>
       (ms = ''unknown'' \<and> (ld, mr) \<in> set unsided_loaders)))"
    by (rule C9_jar_records_carry_merged_verdict
          [of Map.empty "''a_fabric_unknown''" example_libs example_fs "''mods/b.jar''"
              fabric_record,
           THEN conjunct1, THEN mp, THEN mp, OF emp fab])
  have b: "loader old_record = JStr ''universal'' \<and> side old_record = JStr ''unknown'' \<and>
     reasons old_record = JArr [JStr ''legacy/zip: mcmod.info has no reliable sided metadata'']"
    by (rule C9_jar_records_carry_merged_verdict
          [of Map.empty "''old_universal_unknown''" example_libs example_fs "''mods/old.zip''"
              old_record,
           THEN conjunct2, THEN mp, THEN mp, OF emp uni])
  show ?thesis
    by (intro conjI)
       (rule emp jar a risky fab c uni b [THEN conjunct1]
          b [THEN conjunct2, THEN conjunct1] b [THEN conjunct2, THEN conjunct2])+
qed

section \<open>Loading a snapshot that cannot be used\<close>

lemma broken_store_load:
  "LoadFromJson example_libs broken_store 0 mods = (JNull, Map.empty)"
  unfolding LoadFromJson_def
  by (simp add: broken_store_def startswith_def endswith_def py_list_index_def example_libs_def
      Let_def)

text \<open>
  C5, as stated, fails: the only snapshot of \<open>broken_store\<close> is not JSON, the load returns
  \<open>None\<close>, and the registry, which held one record before, is empty afterwards.
\<close>

theorem C5_counterexample:
  "one_mod_registry ''a_fabric_unknown'' = Some first_record \<and>
   fst (LoadFromJson example_libs broken_store 0 one_mod_registry) = JNull \<and>
   snd (LoadFromJson example_libs broken_store 0 one_mod_registry) ''a_fabric_unknown'' = None"
proof -
  have "one_mod_registry ''a_fabric_unknown'' = Some first_record"
    by (simp add: one_mod_registry_def)
  then show ?thesis by (simp add: broken_store_load)
qed

text \<open>
  C5, amended. When the chosen snapshot file cannot be read, cannot be parsed, or holds a
  document that is neither an object with \<open>metadata\<close> and \<open>mods\<close> nor a list, the load
  returns \<open>None\<close> and leaves the registry empty: it was cleared before the file was read.
  When the load fails before a file is chosen (no record directory, a directory that cannot
  be listed, no snapshot file, an index past the last file), it returns \<open>None\<close> and leaves
  the registry exactly as it was.
\<close>

theorem C5_failed_load:
  "(dir_exists store \<and> listing store = Some names \<and>
    py_list_index
      (rev (sort (filter (\<lambda>f. startswith f ''ModelInfo_'' \<and> endswith f ''.json'') names)))
      index = Some f \<and>
    index < int (length (filter (\<lambda>f. startswith f ''ModelInfo_'' \<and> endswith f ''.json'') names)) \<and>
    (read_text store f = None \<or>
     (\<exists>txt. read_text store f = Some txt \<and>
        (case json_loads L txt of Inl e \<Rightarrow> True | Inr data \<Rightarrow> \<not> recognized_shape data)))
    \<longrightarrow> LoadFromJson L store index mods = (JNull, Map.empty)) \<and>
   (\<not> dir_exists store \<or> listing store = None \<or>
    (\<exists>names. listing store = Some names \<and>
       index \<ge> int (length (filter (\<lambda>f. startswith f ''ModelInfo_'' \<and> endswith f ''.json'') names)))
    \<longrightarrow> LoadFromJson L store index mods = (JNull, mods))"
proof (intro conjI impI)
  assume h: "dir_exists store \<and> listing store = Some names \<and>
    py_list_index
      (rev (sort (filter (\<lambda>f. startswith f ''ModelInfo_'' \<and> endswith f ''.json'') names)))
      index = Some f \<and>
    index < int (length (filter (\<lambda>f. startswith f ''ModelInfo_'' \<and> endswith f ''.json'') names)) \<and>
    (read_text store f = None \<or>
     (\<exists>txt. read_text store f = Some txt \<and>
        (case json_loads L txt of Inl e \<Rightarrow> True | Inr data \<Rightarrow> \<not> recognized_shape data)))"
  let ?F = "rev (sort (filter (\<lambda>f. startswith f ''ModelInfo_'' \<and> endswith f ''.json'') names))"
  have sel: "py_list_index ?F index = Some f" and lt: "\<not> int (length ?F) \<le> index"
    using h by auto
  have ne: "?F \<noteq> []"
  proof
    assume "?F = []"
    with sel have "py_list_index ([] :: string list) index = Some f" by simp
    then show False by (cases "index < 0") (simp_all add: py_list_index_def Let_def)
  qed
  have ex: "dir_exists store" and ls: "listing store = Some names"
    using h by auto
  have pre: "LoadFromJson L store index mods =
     (case read_text store f of
        None \<Rightarrow> (JNull, Map.empty)
      | Some txt \<Rightarrow>
          (case json_loads L txt of
             Inl e \<Rightarrow> (JNull, Map.empty)
           | Inr data \<Rightarrow>
               (case (case data of
                        JObj d \<Rightarrow>
                          if map_of d ''metadata'' \<noteq> None \<and> map_of d ''mods'' \<noteq> None
                          then Some (dict_get d ''metadata'' (JObj []),
                                     dict_get d ''mods'' (JArr []))
                          else None
                      | JArr xs \<Rightarrow> Some (JObj [(''current_path'', JStr [])], JArr xs)
                      | _ \<Rightarrow> None) of
                  None \<Rightarrow> (JNull, Map.empty)
                | Some (metadata, mods_data) \<Rightarrow>
                    (case py_iter mods_data of
                       Inl e \<Rightarrow> (JNull, Map.empty)
                     | Inr items \<Rightarrow>
                         (case load_loop L items Map.empty of
                            (Some e, m) \<Rightarrow> (JNull, m)
                          | (None, m) \<Rightarrow> (metadata, m))))))"
    unfolding LoadFromJson_def Let_def
    by (simp only: ex ls sel lt ne not_True_eq_False not_False_eq_True if_True if_False
        option.simps)
  show "LoadFromJson L store index mods = (JNull, Map.empty)"
  proof (cases "read_text store f")
    case None
    then show ?thesis by (simp add: pre)
  next
    case (Some t)
    with h have "case json_loads L t of Inl e \<Rightarrow> True | Inr data \<Rightarrow> \<not> recognized_shape data"
      by simp
    then show ?thesis using Some
      by (auto simp: pre recognized_shape_def split: sum.splits json.splits)
  qed
next
  assume "\<not> dir_exists store \<or> listing store = None \<or>
    (\<exists>names. listing store = Some names \<and>
       index \<ge> int (length (filter (\<lambda>f. startswith f ''ModelInfo_'' \<and> endswith f ''.json'') names)))"
  then show "LoadFromJson L store index mods = (JNull, mods)"
    unfolding LoadFromJson_def by (auto simp: Let_def)
qed

theorem C5_witness:
  "dir_exists broken_store \<and>
   listing broken_store = Some [''ModelInfo_20240101_000000.json'', ''notes.txt''] \<and>
   py_list_index
     (rev (sort (filter (\<lambda>f. startswith f ''ModelInfo_'' \<and> endswith f ''.json'')
                   [''ModelInfo_20240101_000000.json'', ''notes.txt''])))
     0 = Some ''ModelInfo_20240101_000000.json'' \<and>
   read_text broken_store ''ModelInfo_20240101_000000.json'' = Some ''not json'' \<and>
   json_loads example_libs ''not json'' = Inl ValueError \<and>
   LoadFromJson example_libs broken_store 0 one_mod_registry = (JNull, Map.empty) \<and>
   \<not> dir_exists missing_store \<and>
   LoadFromJson example_libs missing_store 0 one_mod_registry = (JNull, one_mod_registry)"
proof -
  have a: "dir_exists broken_store"
    and b: "listing broken_store = Some [''ModelInfo_20240101_000000.json'', ''notes.txt'']"
    and c: "read_text broken_store ''ModelInfo_20240101_000000.json'' = Some ''not json''"
    by (simp_all add: broken_store_def)
  have flt: "filter (\<lambda>f. startswith f ''ModelInfo_'' \<and> endswith f ''.json'')
                   [''ModelInfo_20240101_000000.json'', ''notes.txt'']
             = [''ModelInfo_20240101_000000.json'']"
    by (simp add: startswith_def endswith_def)
  have d: "py_list_index
     (rev (sort (filter (\<lambda>f. startswith f ''ModelInfo_'' \<and> endswith f ''.json'')
                   [''ModelInfo_20240101_000000.json'', ''notes.txt''])))
     0 = Some ''ModelInfo_20240101_000000.json''"
    unfolding flt by (simp add: py_list_index_def)
  have e: "(0::int) < int (length (filter (\<lambda>f. startswith f ''ModelInfo_'' \<and> endswith f ''.json'')
                   [''ModelInfo_20240101_000000.json'', ''notes.txt'']))"
    unfolding flt by simp
  have f: "json_loads example_libs ''not json'' = Inl ValueError"
    by (simp add: example_libs_def)
  have g: "read_text broken_store ''ModelInfo_20240101_000000.json'' = None \<or>
     (\<exists>t. read_text broken_store ''ModelInfo_20240101_000000.json'' = Some t \<and>
        (case json_loads example_libs t of Inl e \<Rightarrow> True
         | Inr data \<Rightarrow> \<not> recognized_shape data))"
    using c f by simp
  have h: "\<not> dir_exists missing_store"
    by (simp add: missing_store_def)
  have r1: "LoadFromJson example_libs broken_store 0 one_mod_registry = (JNull, Map.empty)"
    using a b d e g
      C5_failed_load
        [of broken_store "[''ModelInfo_20240101_000000.json'', ''notes.txt'']" 0
            "''ModelInfo_20240101_000000.json''" example_libs one_mod_registry]
    by blast
  have r2: "LoadFromJson example_libs missing_store 0 one_mod_registry = (JNull, one_mod_registry)"
    using h
      C5_failed_load
        [of missing_store "[]" 0 "[]" example_libs one_mod_registry]
    by blast
  show ?thesis using a b c d f r1 h r2 by blast
qed

end
